theory Spec2Isabelle
  imports Complex_Main "HOL-Library.AList"
begin

section \<open>Python values, types and exceptions\<close>

text \<open>
  The library is dynamically typed Python. Values that reach the modelled functions are
  JSON-like data, classes, plain objects and \<open>AttachmentFile\<close> objects (file.py). An
  \<open>AttachmentFile\<close> carries the attributes its constructor and \<open>save\<close> assign; the
  attribute \<open>token\<close> exists only after \<open>save\<close> has stored it (\<open>None\<close> here means
  the attribute is absent). Its \<open>file_manager\<close> is the upload collaborator and is a
  parameter of the functions that use it; \<open>zendesk_data\<close> is assigned once and never read.
\<close>

datatype 'v AttachmentFile = AttachmentFile
  (attachment_id: 'v) (attachment_url: 'v) (attachment_size: 'v) (attachment_filename: 'v)
  (content: 'v) (saved: bool) (token: "'v option")

datatype pyval =
    PNone
  | PBool bool
  | PInt int
  | PFloat rat
  | PStr string
  | PBytes string
  | PList "pyval list"
  | PDict "(string \<times> pyval) list"
  | PClass string
  | PObject string "(string \<times> pyval) list"
  | PFile "pyval AttachmentFile"

datatype pytype =
  TNoneType | TBool | TInt | TFloat | TStr | TBytes | TList | TDict | TType
  | TAttachmentFile | TClass string

datatype error =
    FieldTypeError string pytype
  | InvalidChoiceError string pyval
  | InvalidDateFormatError string
  | InvalidRegexError string pyval
  | RegexCompileError string
  | ReError string
  | ValueError string
  | AttributeError string
  | KeyError pyval
  | IndexError
  | TypeError
  | HTTPError int pyval
  | UniqueConstraintError pyval
  | CreateRecordError pyval
  | UpdateRecordError pyval
  | DeleteRecordError pyval
  | BadRequestError string
  | NotFoundError string pyval

text \<open>\<open>bool(v)\<close>: Python truthiness. \<open>AttachmentFile.__bool__\<close> is \<open>bool(self.id or self.content)\<close>.\<close>

fun truthy :: "pyval \<Rightarrow> bool" where
  "truthy PNone = False"
| "truthy (PBool b) = b"
| "truthy (PInt i) = (i \<noteq> 0)"
| "truthy (PFloat r) = (r \<noteq> 0)"
| "truthy (PStr s) = (s \<noteq> [])"
| "truthy (PBytes s) = (s \<noteq> [])"
| "truthy (PList xs) = (xs \<noteq> [])"
| "truthy (PDict kvs) = (kvs \<noteq> [])"
| "truthy (PClass c) = True"
| "truthy (PObject c attrs) = True"
| "truthy (PFile (AttachmentFile i u s f c sv t)) = (truthy i \<or> truthy c)"

fun type_of :: "pyval \<Rightarrow> pytype" where
  "type_of PNone = TNoneType"
| "type_of (PBool b) = TBool"
| "type_of (PInt i) = TInt"
| "type_of (PFloat r) = TFloat"
| "type_of (PStr s) = TStr"
| "type_of (PBytes s) = TBytes"
| "type_of (PList xs) = TList"
| "type_of (PDict kvs) = TDict"
| "type_of (PClass c) = TType"
| "type_of (PObject c attrs) = TClass c"
| "type_of (PFile a) = TAttachmentFile"

text \<open>\<open>isinstance(v, t)\<close>; \<open>bool\<close> is a subclass of \<open>int\<close>.\<close>

definition isinstance :: "pyval \<Rightarrow> pytype \<Rightarrow> bool" where
  "isinstance v t = (type_of v = t \<or> (type_of v = TBool \<and> t = TInt))"

text \<open>\<open>v == n\<close> for an integer literal \<open>n\<close>.\<close>

fun eq_int :: "pyval \<Rightarrow> int \<Rightarrow> bool" where
  "eq_int (PInt i) n = (i = n)"
| "eq_int (PBool b) n = ((if b then 1 else 0) = n)"
| "eq_int (PFloat r) n = (r = of_int n)"
| "eq_int v n = False"

text \<open>\<open>d.get(k, default)\<close>: only a dict has the method.\<close>

fun dict_get :: "pyval \<Rightarrow> string \<Rightarrow> pyval \<Rightarrow> error + pyval" where
  "dict_get (PDict kvs) k d = Inr (case map_of kvs k of None \<Rightarrow> d | Some v \<Rightarrow> v)"
| "dict_get v k d = Inl (AttributeError ''get'')"

text \<open>\<open>d[k]\<close> with a string key.\<close>

fun subscript :: "pyval \<Rightarrow> string \<Rightarrow> error + pyval" where
  "subscript (PDict kvs) k = (case map_of kvs k of None \<Rightarrow> Inl (KeyError (PStr k)) | Some v \<Rightarrow> Inr v)"
| "subscript v k = Inl TypeError"

text \<open>\<open>v[0]\<close>.\<close>

fun first_item :: "pyval \<Rightarrow> error + pyval" where
  "first_item (PList xs) = (case xs of [] \<Rightarrow> Inl IndexError | x # _ \<Rightarrow> Inr x)"
| "first_item (PStr s) = (case s of [] \<Rightarrow> Inl IndexError | c # _ \<Rightarrow> Inr (PStr [c]))"
| "first_item (PBytes s) = (case s of [] \<Rightarrow> Inl IndexError | c # _ \<Rightarrow> Inr (PInt (of_char c)))"
| "first_item (PDict kvs) = Inl (KeyError (PInt 0))"
| "first_item v = Inl TypeError"

text \<open>Iterating a value in a \<open>for\<close> loop or comprehension.\<close>

fun iterate :: "pyval \<Rightarrow> error + pyval list" where
  "iterate (PList xs) = Inr xs"
| "iterate (PStr s) = Inr (map (\<lambda>c. PStr [c]) s)"
| "iterate (PBytes s) = Inr (map (\<lambda>c. PInt (of_char c)) s)"
| "iterate (PDict kvs) = Inr (map (\<lambda>k. PStr k) (remdups (map fst kvs)))"
| "iterate v = Inl TypeError"

text \<open>
  Strings are byte strings (UTF-8). On the ASCII letters \<open>str.lower()\<close> maps
  \<open>A\<close>-\<open>Z\<close> to \<open>a\<close>-\<open>z\<close>; what it does to other characters is Unicode data and a
  parameter below.
\<close>

definition lower_char :: "char \<Rightarrow> char" where
  "lower_char c =
     (let n = (of_char c :: nat) in if 65 \<le> n \<and> n \<le> 90 then char_of (n + 32) else c)"


definition is_ascii :: "char \<Rightarrow> bool" where
  "is_ascii c = ((of_char c :: nat) < 128)"

text \<open>Sequencing of statements that may raise.\<close>

definition bind :: "error + 'a \<Rightarrow> ('a \<Rightarrow> error + 'b) \<Rightarrow> error + 'b" where
  "bind m f = (case m of Inl e \<Rightarrow> Inl e | Inr x \<Rightarrow> f x)"

section \<open>Attachment files (file.py)\<close>

definition set_attachment_id :: "'v \<Rightarrow> 'v AttachmentFile \<Rightarrow> 'v AttachmentFile" where
  "set_attachment_id v a =
     AttachmentFile v (attachment_url a) (attachment_size a) (attachment_filename a)
       (content a) (saved a) (token a)"

definition set_attachment_url :: "'v \<Rightarrow> 'v AttachmentFile \<Rightarrow> 'v AttachmentFile" where
  "set_attachment_url v a =
     AttachmentFile (attachment_id a) v (attachment_size a) (attachment_filename a)
       (content a) (saved a) (token a)"

definition set_attachment_size :: "'v \<Rightarrow> 'v AttachmentFile \<Rightarrow> 'v AttachmentFile" where
  "set_attachment_size v a =
     AttachmentFile (attachment_id a) (attachment_url a) v (attachment_filename a)
       (content a) (saved a) (token a)"

definition set_attachment_filename :: "'v \<Rightarrow> 'v AttachmentFile \<Rightarrow> 'v AttachmentFile" where
  "set_attachment_filename v a =
     AttachmentFile (attachment_id a) (attachment_url a) (attachment_size a) v
       (content a) (saved a) (token a)"

definition set_content :: "'v \<Rightarrow> 'v AttachmentFile \<Rightarrow> 'v AttachmentFile" where
  "set_content v a =
     AttachmentFile (attachment_id a) (attachment_url a) (attachment_size a)
       (attachment_filename a) v (saved a) (token a)"

definition set_saved :: "bool \<Rightarrow> 'v AttachmentFile \<Rightarrow> 'v AttachmentFile" where
  "set_saved b a =
     AttachmentFile (attachment_id a) (attachment_url a) (attachment_size a)
       (attachment_filename a) (content a) b (token a)"

definition set_token :: "'v \<Rightarrow> 'v AttachmentFile \<Rightarrow> 'v AttachmentFile" where
  "set_token v a =
     AttachmentFile (attachment_id a) (attachment_url a) (attachment_size a)
       (attachment_filename a) (content a) (saved a) (Some v)"

text \<open>
  \<open>self.file_manager().upload(filename, content)\<close> is the parameter \<open>upload\<close>: it
  returns the decoded response or raises. \<open>_upload_attachment\<close> returns the
  \<open>"upload"\<close> entry of that response.
\<close>

type_synonym uploader = "pyval \<Rightarrow> pyval \<Rightarrow> error + pyval"

definition upload_attachment :: "uploader \<Rightarrow> pyval \<Rightarrow> pyval \<Rightarrow> error + pyval" where
  "upload_attachment upload filename cont =
     bind (upload filename cont) (\<lambda>response. subscript response ''upload'')"

text \<open>\<open>upload_data["attachment"][k]\<close>.\<close>

definition attachment_item :: "pyval \<Rightarrow> string \<Rightarrow> error + pyval" where
  "attachment_item upload_data k = bind (subscript upload_data ''attachment'') (\<lambda>a. subscript a k)"

text \<open>
  The six assignments of \<open>save\<close> after the upload. They run in order: when a key is
  missing, the assignments before it have already taken place.
\<close>

definition store_upload ::
  "pyval AttachmentFile \<Rightarrow> pyval \<Rightarrow> (error + unit) \<times> pyval AttachmentFile" where
  "store_upload a upload_data =
     (case attachment_item upload_data ''id'' of
        Inl e \<Rightarrow> (Inl e, a)
      | Inr v1 \<Rightarrow>
          let a1 = set_attachment_id v1 a in
          (case attachment_item upload_data ''file_name'' of
             Inl e \<Rightarrow> (Inl e, a1)
           | Inr v2 \<Rightarrow>
               let a2 = set_attachment_filename v2 a1 in
               (case attachment_item upload_data ''content_url'' of
                  Inl e \<Rightarrow> (Inl e, a2)
                | Inr v3 \<Rightarrow>
                    let a3 = set_attachment_url v3 a2 in
                    (case attachment_item upload_data ''size'' of
                       Inl e \<Rightarrow> (Inl e, a3)
                     | Inr v4 \<Rightarrow>
                         let a4 = set_attachment_size v4 a3 in
                         (case subscript upload_data ''token'' of
                            Inl e \<Rightarrow> (Inl e, a4)
                          | Inr t \<Rightarrow> (Inr (), set_saved True (set_token t a4)))))))"

text \<open>
  \<open>AttachmentFile.save\<close>: outcome, the object afterwards, and the uploads requested, each
  as the pair of filename and content that was sent.
\<close>

definition AttachmentFile_save ::
  "uploader \<Rightarrow> pyval AttachmentFile
     \<Rightarrow> (error + unit) \<times> pyval AttachmentFile \<times> (pyval \<times> pyval) list" where
  "AttachmentFile_save upload a =
     (if \<not> saved a then
        if \<not> isinstance (content a) TBytes
        then (Inl (ValueError ''Content attribute must be of type bytes.''), a, [])
        else
          (case upload_attachment upload (attachment_filename a) (content a) of
             Inl e \<Rightarrow> (Inl e, a, [(attachment_filename a, content a)])
           | Inr upload_data \<Rightarrow>
               (fst (store_upload a upload_data), snd (store_upload a upload_data),
                [(attachment_filename a, content a)]))
      else (Inr (), a, []))"

text \<open>Two calls in a row, \<open>a.save(); a.save()\<close>: an exception of the first ends the sequence.\<close>

definition save_twice ::
  "uploader \<Rightarrow> pyval AttachmentFile
     \<Rightarrow> (error + unit) \<times> pyval AttachmentFile \<times> (pyval \<times> pyval) list" where
  "save_twice upload a =
     (case AttachmentFile_save upload a of
        (Inl e, a1, ups1) \<Rightarrow> (Inl e, a1, ups1)
      | (Inr u, a1, ups1) \<Rightarrow>
          (case AttachmentFile_save upload a1 of (r, a2, ups2) \<Rightarrow> (r, a2, ups1 @ ups2)))"

text \<open>The setter of the property \<open>content\<close>.\<close>

definition content_setter :: "pyval AttachmentFile \<Rightarrow> pyval \<Rightarrow> error + pyval AttachmentFile" where
  "content_setter a v =
     (if \<not> isinstance v TBytes then Inl (ValueError ''Content attribute must be of type bytes.'')
      else Inr (set_saved False (set_content v a)))"

text \<open>
  \<open>AttachmentFile.__init__\<close>; \<open>uuid4\<close> is the string \<open>str(uuid.uuid4())\<close> produces at
  this call. The result is the new object, or the exception of the \<open>save\<close> that
  \<open>save_fast\<close> asks for, and the uploads requested.
\<close>

definition AttachmentFile_init ::
  "uploader \<Rightarrow> string \<Rightarrow> pyval \<Rightarrow> pyval \<Rightarrow> pyval \<Rightarrow> pyval \<Rightarrow> pyval \<Rightarrow> bool
     \<Rightarrow> (error + pyval AttachmentFile) \<times> (pyval \<times> pyval) list" where
  "AttachmentFile_init upload uuid4 a_id a_url a_size a_filename cont save_fast =
     (let a0 = AttachmentFile a_id a_url a_size
                 (if truthy a_filename then a_filename else PStr uuid4) cont False None;
          a1 = (if truthy a_id then set_saved True a0 else a0)
      in if truthy cont then
           (let a2 = set_saved False a1 in
            if save_fast then
              (case AttachmentFile_save upload a2 of
                 (Inl e, a3, ups) \<Rightarrow> (Inl e, ups)
               | (Inr u, a3, ups) \<Rightarrow> (Inr a3, ups))
            else (Inr a2, []))
         else (Inr a1, []))"

section \<open>Field descriptors (fields.py)\<close>

text \<open>
  Collaborators outside the repository are parameters: \<open>re.match(pattern, value)\<close> (as the
  truth value the code takes of it), the builtin \<open>float\<close>, which may raise, the builtin
  \<open>str\<close> that formats a value inside an f-string, \<open>unidecode\<close>, the Unicode data behind
  \<open>str.lower()\<close> (the result for a string with a character outside ASCII, and whether
  a string has an uppercase character outside ASCII), the upload of the file manager,
  and the string \<open>str(uuid.uuid4())\<close> produces.
\<close>

record env =
  re_match :: "string \<Rightarrow> string \<Rightarrow> bool"
  py_float :: "pyval \<Rightarrow> error + pyval"
  py_str :: "pyval \<Rightarrow> string"
  unidecode :: "string \<Rightarrow> string"
  unicode_lower :: "string \<Rightarrow> string"
  unicode_has_upper :: "string \<Rightarrow> bool"
  file_upload :: uploader
  fresh_uuid :: string

text \<open>\<open>str.lower()\<close>: on a string of ASCII characters it lowercases \<open>A\<close>-\<open>Z\<close>.\<close>

definition lower :: "env \<Rightarrow> string \<Rightarrow> string" where
  "lower E s = (if list_all is_ascii s then map lower_char s else unicode_lower E s)"


record NameField =
  unique :: bool
  autoincrement_enabled :: bool
  autoincrement_prefix :: string
  autoincrement_padding :: int
  autoincrement_next_sequence :: int

text \<open>The \<open>choices\<close> argument: \<open>List[str] | List[Tuple[str, str]]\<close>.\<close>

datatype choices = StrChoices "string list" | PairChoices "(string \<times> string) list"

text \<open>
  The attributes of a \<open>DropdownField\<close> or \<open>MultiselectField\<close>; \<open>cf_name\<close> is the
  attribute \<open>name\<close> that \<open>Field.__init__\<close> sets.
\<close>

record ChoiceField =
  cf_name :: string
  cf_choices :: choices
  to_representation :: "(string \<times> string) list option"
  possible_keys :: "string list"

text \<open>
  One constructor per descriptor class that inherits \<open>Field.__get__\<close> and
  \<open>Field.__set__\<close>. \<open>AttachmentField\<close> replaces both accessors and has a section of
  its own below. The string argument is the field's \<open>name\<close> (the wire key).
\<close>

datatype field =
    Name NameField
  | TextField string
  | TextareaField string
  | CheckboxField string
  | DateField string
  | IntegerField string
  | DecimalField string
  | RegexpField string string
  | DropdownField ChoiceField
  | LookupField string pyval bool
  | MultiselectField ChoiceField

fun field_name :: "field \<Rightarrow> string" where
  "field_name (Name c) = ''name''"
| "field_name (TextField n) = n"
| "field_name (TextareaField n) = n"
| "field_name (CheckboxField n) = n"
| "field_name (DateField n) = n"
| "field_name (IntegerField n) = n"
| "field_name (DecimalField n) = n"
| "field_name (RegexpField n p) = n"
| "field_name (DropdownField c) = cf_name c"
| "field_name (LookupField n r b) = n"
| "field_name (MultiselectField c) = cf_name c"

fun data_type :: "field \<Rightarrow> pytype" where
  "data_type (Name c) = TStr"
| "data_type (TextField n) = TStr"
| "data_type (TextareaField n) = TStr"
| "data_type (CheckboxField n) = TBool"
| "data_type (DateField n) = TStr"
| "data_type (IntegerField n) = TInt"
| "data_type (DecimalField n) = TFloat"
| "data_type (RegexpField n p) = TStr"
| "data_type (DropdownField c) = TStr"
| "data_type (LookupField n r b) = type_of r"
| "data_type (MultiselectField c) = TList"

text \<open>\<open>dict(choices)\<close>: a later pair with the same key replaces the label.\<close>

definition dict_of_pairs :: "(string \<times> string) list \<Rightarrow> (string \<times> string) list" where
  "dict_of_pairs ps = foldl (\<lambda>d (k, v). AList.update k v d) [] ps"

text \<open>\<open>unidecode(choice).lower().replace(" ", "_")\<close>.\<close>

definition normalize_choice :: "env \<Rightarrow> string \<Rightarrow> string" where
  "normalize_choice E choice =
     map (\<lambda>c. if c = CHR '' '' then CHR ''_'' else c) (lower E (unidecode E choice))"

text \<open>
  The body shared by \<open>DropdownField.__init__\<close> and \<open>MultiselectField.__init__\<close>:
  pairs are recognised by a non-empty list whose first element is a tuple.
\<close>

definition ChoiceField_init :: "env \<Rightarrow> string \<Rightarrow> choices \<Rightarrow> ChoiceField" where
  "ChoiceField_init E n cs =
     (case cs of
        PairChoices (p # ps) \<Rightarrow>
          \<lparr>cf_name = n, cf_choices = cs, to_representation = Some (dict_of_pairs (p # ps)),
           possible_keys = map fst (p # ps)\<rparr>
      | PairChoices [] \<Rightarrow>
          \<lparr>cf_name = n, cf_choices = cs, to_representation = None, possible_keys = []\<rparr>
      | StrChoices ss \<Rightarrow>
          \<lparr>cf_name = n, cf_choices = cs, to_representation = None,
           possible_keys = map (normalize_choice E) ss\<rparr>)"

definition DropdownField_init :: "env \<Rightarrow> string \<Rightarrow> choices \<Rightarrow> field" where
  "DropdownField_init E n cs = DropdownField (ChoiceField_init E n cs)"

definition MultiselectField_init :: "env \<Rightarrow> string \<Rightarrow> choices \<Rightarrow> field" where
  "MultiselectField_init E n cs = MultiselectField (ChoiceField_init E n cs)"

text \<open>\<open>item in self.possible_keys\<close>: only a string equals a key.\<close>

fun member_of :: "pyval \<Rightarrow> string list \<Rightarrow> bool" where
  "member_of (PStr s) keys = (s \<in> set keys)"
| "member_of v keys = False"

text \<open>
  \<open>DateField._is_valid_date_format\<close>: \<open>re.match\<close> of the pattern
  \<^verbatim>\<open>^\d{4}-\d{2}-\d{2}$\<close>; the \<^verbatim>\<open>$\<close> also matches before one final newline.
\<close>

definition is_digit :: "char \<Rightarrow> bool" where
  "is_digit c = (48 \<le> (of_char c :: nat) \<and> (of_char c :: nat) \<le> 57)"

definition is_valid_date_format :: "string \<Rightarrow> bool" where
  "is_valid_date_format date_str =
     (let t = (if length date_str = 11 \<and> last date_str = CHR 0x0A
               then butlast date_str else date_str)
      in length t = 10 \<and> list_all is_digit (take 4 t) \<and> t ! 4 = CHR ''-''
         \<and> list_all is_digit (take 2 (drop 5 t)) \<and> t ! 7 = CHR ''-''
         \<and> list_all is_digit (drop 8 t))"

text \<open>The \<open>validate\<close> method of each class; \<open>Inl\<close> is the exception it raises.\<close>

fun validate :: "env \<Rightarrow> field \<Rightarrow> pyval \<Rightarrow> error + bool" where
  "validate E (DateField n) v =
     (if v = PNone then Inr True
      else case v of
        PStr s \<Rightarrow> if \<not> is_valid_date_format s then Inl (InvalidDateFormatError n) else Inr True
      | _ \<Rightarrow> Inl (FieldTypeError n TStr))"
| "validate E (RegexpField n pattern) v =
     (if v = PNone then Inr True
      else case v of
        PStr s \<Rightarrow> if \<not> re_match E pattern s then Inl (InvalidRegexError n v) else Inr True
      | _ \<Rightarrow> Inl (FieldTypeError n TStr))"
| "validate E (DropdownField c) v =
     (if v = PNone then Inr True
      else if \<not> isinstance v TStr then Inl (FieldTypeError (cf_name c) TStr)
      else if possible_keys c \<noteq> [] \<and> \<not> member_of v (possible_keys c)
        then Inl (InvalidChoiceError (cf_name c) v)
      else Inr True)"
| "validate E (MultiselectField c) v =
     (if v = PNone then Inr True
      else case v of
        PList items \<Rightarrow>
          (case find (\<lambda>item. possible_keys c \<noteq> [] \<and> \<not> member_of item (possible_keys c)) items of
             Some item \<Rightarrow> Inl (InvalidChoiceError (cf_name c) item)
           | None \<Rightarrow> Inr True)
      | _ \<Rightarrow> Inl (FieldTypeError (cf_name c) TList))"
| "validate E f v = (if v = PNone then Inr True else Inr (isinstance v (data_type f)))"

text \<open>An instance's \<open>__dict__\<close>.\<close>

type_synonym instance_dict = "string \<rightharpoonup> pyval"

text \<open>\<open>Field.__get__\<close>: \<open>instance.__dict__.get(self.name)\<close>.\<close>

definition Field_get :: "field \<Rightarrow> instance_dict \<Rightarrow> pyval" where
  "Field_get f inst = (case inst (field_name f) of None \<Rightarrow> PNone | Some v \<Rightarrow> v)"

text \<open>\<open>Field.__set__\<close>, which every class reaches through \<open>super().__set__\<close>.\<close>

definition Field_set_base :: "env \<Rightarrow> field \<Rightarrow> instance_dict \<Rightarrow> pyval \<Rightarrow> error + instance_dict" where
  "Field_set_base E f inst v =
     (case validate E f v of
        Inl e \<Rightarrow> Inl e
      | Inr ok \<Rightarrow>
          if \<not> ok then Inl (FieldTypeError (field_name f) (data_type f))
          else Inr (inst(field_name f \<mapsto> v)))"

text \<open>
  \<open>__set__\<close> of each class: \<open>DateField\<close> keeps what precedes the first \<open>T\<close> of a
  string, \<open>DecimalField\<close> converts a non-null value with \<open>float\<close>, the others pass the
  value on.
\<close>

fun Field_set :: "env \<Rightarrow> field \<Rightarrow> instance_dict \<Rightarrow> pyval \<Rightarrow> error + instance_dict" where
  "Field_set E (DateField n) inst v =
     Field_set_base E (DateField n) inst
       (case v of PStr s \<Rightarrow> PStr (takeWhile (\<lambda>c. c \<noteq> CHR ''T'') s) | _ \<Rightarrow> v)"
| "Field_set E (DecimalField n) inst v =
     (if v \<noteq> PNone then bind (py_float E v) (Field_set_base E (DecimalField n) inst)
      else Field_set_base E (DecimalField n) inst PNone)"
| "Field_set E f inst v = Field_set_base E f inst v"

text \<open>\<open>self.to_representation[value]\<close>.\<close>

fun label_of :: "(string \<times> string) list \<Rightarrow> pyval \<Rightarrow> error + pyval" where
  "label_of d (PStr k) = (case map_of d k of None \<Rightarrow> Inl (KeyError (PStr k)) | Some l \<Rightarrow> Inr (PStr l))"
| "label_of d (PList xs) = Inl TypeError"
| "label_of d (PDict kvs) = Inl TypeError"
| "label_of d v = Inl (KeyError v)"

text \<open>The \<open>{"value": ..., "label": ...}\<close> form of one stored key.\<close>

definition value_label :: "ChoiceField \<Rightarrow> pyval \<Rightarrow> error + pyval" where
  "value_label c v =
     (case to_representation c of
        Some (p # ps) \<Rightarrow>
          bind (label_of (p # ps) v) (\<lambda>l. Inr (PDict [(''value'', v), (''label'', l)]))
      | _ \<Rightarrow> Inr (PDict [(''value'', v), (''label'', v)]))"

text \<open>A list comprehension whose element expression may raise.\<close>

fun map_err :: "('a \<Rightarrow> error + 'b) \<Rightarrow> 'a list \<Rightarrow> error + 'b list" where
  "map_err g [] = Inr []"
| "map_err g (x # xs) = bind (g x) (\<lambda>y. bind (map_err g xs) (\<lambda>ys. Inr (y # ys)))"

text \<open>
  \<open>DropdownField.get_to_representation\<close> and \<open>MultiselectField.get_to_representation\<close>;
  defined on the other classes only to make the function total (they have no such method).
\<close>

fun get_to_representation :: "field \<Rightarrow> instance_dict \<Rightarrow> error + pyval" where
  "get_to_representation (DropdownField c) inst =
     (let v = Field_get (DropdownField c) inst in
      if v = PNone then Inr PNone else value_label c v)"
| "get_to_representation (MultiselectField c) inst =
     (let v = Field_get (MultiselectField c) inst in
      if v = PNone then Inr PNone
      else bind (iterate v) (\<lambda>items. bind (map_err (value_label c) items) (\<lambda>ds. Inr (PList ds))))"
| "get_to_representation f inst = Inl (AttributeError ''get_to_representation'')"

section \<open>The attachment descriptor (fields.py)\<close>

text \<open>
  \<open>AttachmentField.__init__\<close> does not call \<open>Field.__init__\<close>; the five slot names
  exist as attributes only once \<open>contribute_to_class\<close> has run (\<open>None\<close>: the attribute
  is absent and reading it raises \<open>AttributeError\<close>).
\<close>

record AttachmentField =
  field_name_attr :: string
  ticket_field_name :: string
  model_file_attribute_name :: "string option"
  id_field_name :: "string option"
  url_field_name :: "string option"
  filename_field_name :: "string option"
  size_field_name :: "string option"

definition AttachmentField_init :: "string \<Rightarrow> string \<Rightarrow> AttachmentField" where
  "AttachmentField_init fname tname =
     \<lparr>field_name_attr = fname, ticket_field_name = tname, model_file_attribute_name = None,
      id_field_name = None, url_field_name = None, filename_field_name = None,
      size_field_name = None\<rparr>"

definition contribute_to_class :: "AttachmentField \<Rightarrow> string \<Rightarrow> AttachmentField" where
  "contribute_to_class af n =
     af\<lparr>model_file_attribute_name := Some (''__'' @ n @ ''_file''),
        id_field_name := Some (n @ ''_id''),
        url_field_name := Some (n @ ''_url''),
        filename_field_name := Some (n @ ''_filename''),
        size_field_name := Some (n @ ''_size'')\<rparr>"

text \<open>Reading an attribute of the descriptor itself.\<close>

definition self_attr :: "string option \<Rightarrow> string \<Rightarrow> error + string" where
  "self_attr a n = (case a of None \<Rightarrow> Inl (AttributeError n) | Some s \<Rightarrow> Inr s)"

text \<open>\<open>getattr(instance, n, None)\<close> on an instance whose class declares nothing under \<open>n\<close>.\<close>

definition slot_or_none :: "instance_dict \<Rightarrow> string \<Rightarrow> pyval" where
  "slot_or_none inst n = (case inst n of None \<Rightarrow> PNone | Some v \<Rightarrow> v)"

text \<open>
  \<open>AttachmentField.__get__\<close> for an instance (not the class). The slots it reads and the
  cache it writes are attributes of the instance; the instance's class is taken to
  declare no descriptor under those names, so they live in the instance's \<open>__dict__\<close>.
  The result is the value or exception, and the instance afterwards.
\<close>

definition AttachmentField_get ::
  "uploader \<Rightarrow> string \<Rightarrow> AttachmentField \<Rightarrow> instance_dict \<Rightarrow> (error + pyval) \<times> instance_dict" where
  "AttachmentField_get upload uuid4 af inst =
     (case self_attr (model_file_attribute_name af) ''model_file_attribute_name'' of
        Inl e \<Rightarrow> (Inl e, inst)
      | Inr mf \<Rightarrow>
          (case inst mf of
             Some v \<Rightarrow> (Inr v, inst)
           | None \<Rightarrow>
               (case bind (self_attr (id_field_name af) ''id_field_name'')
                       (\<lambda>i. bind (self_attr (url_field_name af) ''url_field_name'')
                         (\<lambda>u. bind (self_attr (filename_field_name af) ''filename_field_name'')
                           (\<lambda>f. bind (self_attr (size_field_name af) ''size_field_name'')
                             (\<lambda>s. Inr (slot_or_none inst i, slot_or_none inst u,
                                        slot_or_none inst f, slot_or_none inst s))))) of
                  Inl e \<Rightarrow> (Inl e, inst)
                | Inr (attach_id, attach_url, attach_filename, attach_size) \<Rightarrow>
                    if \<not> truthy attach_id then (Inr PNone, inst)
                    else
                      (case fst (AttachmentFile_init upload uuid4 attach_id attach_url
                                   attach_size attach_filename PNone False) of
                         Inl e \<Rightarrow> (Inl e, inst)
                       | Inr a \<Rightarrow> (Inr (PFile a), inst(mf \<mapsto> PFile a))))))"

text \<open>
  \<open>AttachmentField.__set__\<close>: the five \<open>setattr\<close> calls run in order; the result is the
  exception, if any, and the instance afterwards.
\<close>

definition AttachmentField_set ::
  "AttachmentField \<Rightarrow> instance_dict \<Rightarrow> pyval \<Rightarrow> (error + unit) \<times> instance_dict" where
  "AttachmentField_set af inst v =
     (if v \<noteq> PNone then
        (case v of
           PFile a \<Rightarrow>
             (case self_attr (model_file_attribute_name af) ''model_file_attribute_name'' of
                Inl e \<Rightarrow> (Inl e, inst)
              | Inr mf \<Rightarrow>
                  let i1 = inst(mf \<mapsto> v) in
                  (case self_attr (id_field_name af) ''id_field_name'' of
                     Inl e \<Rightarrow> (Inl e, i1)
                   | Inr idn \<Rightarrow>
                       let i2 = i1(idn \<mapsto> attachment_id a) in
                       (case self_attr (url_field_name af) ''url_field_name'' of
                          Inl e \<Rightarrow> (Inl e, i2)
                        | Inr un \<Rightarrow>
                            let i3 = i2(un \<mapsto> attachment_url a) in
                            (case self_attr (filename_field_name af) ''filename_field_name'' of
                               Inl e \<Rightarrow> (Inl e, i3)
                             | Inr fn \<Rightarrow>
                                 let i4 = i3(fn \<mapsto> attachment_filename a) in
                                 (case self_attr (size_field_name af) ''size_field_name'' of
                                    Inl e \<Rightarrow> (Inl e, i4)
                                  | Inr sn \<Rightarrow> (Inr (), i4(sn \<mapsto> attachment_size a)))))))
         | _ \<Rightarrow> (Inl (ValueError ''AttachmentField only accepts AttachmentFile instances.''), inst))
      else (Inr (), inst))"

section \<open>Entities (base.py)\<close>

text \<open>
  A class attribute that is a field: one of the kinds built on \<open>Field.__get__\<close> and
  \<open>Field.__set__\<close>, or an \<open>AttachmentField\<close> (a subclass of \<open>Field\<close> with accessors of
  its own).
\<close>

datatype descriptor = Plain field | Attachment AttachmentField

text \<open>
  A subclass of \<open>CustomObject\<close>: its \<open>__name__\<close> and the field descriptors of its
  \<open>__dict__\<close>, in declaration order. Class attributes that are not fields, which the
  loops over \<open>__dict__\<close> skip, are left out.
\<close>

record CustomObject_class =
  class_name :: string
  class_dict :: "(string \<times> descriptor) list"

text \<open>
  Statements that read or write attributes of \<open>self\<close> return their value or exception
  together with the instance's \<open>__dict__\<close> afterwards: reading an attachment field may
  store the file it builds. \<open>and_then\<close> runs the next statement unless the first raised.
\<close>

definition and_then ::
  "(error + 'a) \<times> instance_dict \<Rightarrow> ('a \<Rightarrow> instance_dict \<Rightarrow> (error + 'b) \<times> instance_dict)
     \<Rightarrow> (error + 'b) \<times> instance_dict" where
  "and_then r f = (case r of (Inl e, inst1) \<Rightarrow> (Inl e, inst1) | (Inr x, inst1) \<Rightarrow> f x inst1)"

text \<open>
  \<open>getattr(self, n)\<close>: a descriptor of the class takes precedence over the instance's
  \<open>__dict__\<close>; a name found in neither raises \<open>AttributeError\<close>.
\<close>

definition getattr ::
  "env \<Rightarrow> CustomObject_class \<Rightarrow> instance_dict \<Rightarrow> string \<Rightarrow> (error + pyval) \<times> instance_dict" where
  "getattr E C inst n =
     (case map_of (class_dict C) n of
        Some (Plain f) \<Rightarrow> (Inr (Field_get f inst), inst)
      | Some (Attachment af) \<Rightarrow> AttachmentField_get (file_upload E) (fresh_uuid E) af inst
      | None \<Rightarrow> (case inst n of None \<Rightarrow> (Inl (AttributeError n), inst) | Some v \<Rightarrow> (Inr v, inst)))"

text \<open>\<open>getattr(self, n, None)\<close>: the default replaces an \<open>AttributeError\<close> only.\<close>

definition getattr_default ::
  "env \<Rightarrow> CustomObject_class \<Rightarrow> instance_dict \<Rightarrow> string \<Rightarrow> (error + pyval) \<times> instance_dict" where
  "getattr_default E C inst n =
     (case getattr E C inst n of
        (Inl (AttributeError m), inst1) \<Rightarrow> (Inr PNone, inst1)
      | (Inl e, inst1) \<Rightarrow> (Inl e, inst1)
      | (Inr v, inst1) \<Rightarrow> (Inr v, inst1))"

text \<open>\<open>hasattr(self, n)\<close>: false on \<open>AttributeError\<close>; any other exception propagates.\<close>

definition hasattr ::
  "env \<Rightarrow> CustomObject_class \<Rightarrow> instance_dict \<Rightarrow> string \<Rightarrow> (error + bool) \<times> instance_dict" where
  "hasattr E C inst n =
     (case getattr E C inst n of
        (Inl (AttributeError m), inst1) \<Rightarrow> (Inr False, inst1)
      | (Inl e, inst1) \<Rightarrow> (Inl e, inst1)
      | (Inr v, inst1) \<Rightarrow> (Inr True, inst1))"

text \<open>\<open>setattr(self, n, v)\<close>, also written \<open>self.n = v\<close>.\<close>

definition setattr ::
  "env \<Rightarrow> CustomObject_class \<Rightarrow> instance_dict \<Rightarrow> string \<Rightarrow> pyval \<Rightarrow> (error + unit) \<times> instance_dict" where
  "setattr E C inst n v =
     (case map_of (class_dict C) n of
        Some (Plain f) \<Rightarrow>
          (case Field_set E f inst v of Inl e \<Rightarrow> (Inl e, inst) | Inr inst1 \<Rightarrow> (Inr (), inst1))
      | Some (Attachment af) \<Rightarrow> AttachmentField_set af inst v
      | None \<Rightarrow> (Inr (), inst(n \<mapsto> v)))"

text \<open>\<open>kwargs.get(k)\<close>.\<close>

definition kwargs_get :: "(string \<times> pyval) list \<Rightarrow> string \<Rightarrow> pyval" where
  "kwargs_get kwargs k = (case map_of kwargs k of None \<Rightarrow> PNone | Some v \<Rightarrow> v)"

fun init_fields ::
  "env \<Rightarrow> CustomObject_class \<Rightarrow> (string \<times> pyval) list \<Rightarrow> (string \<times> descriptor) list
     \<Rightarrow> instance_dict \<Rightarrow> (error + unit) \<times> instance_dict" where
  "init_fields E C kwargs [] inst = (Inr (), inst)"
| "init_fields E C kwargs ((attr, d) # rest) inst =
     (case setattr E C inst attr (kwargs_get kwargs attr) of
        (Inl e, inst1) \<Rightarrow> (Inl e, inst1)
      | (Inr u, inst1) \<Rightarrow> init_fields E C kwargs rest inst1)"

text \<open>\<open>CustomObject.__init__\<close>.\<close>

definition CustomObject_init ::
  "env \<Rightarrow> CustomObject_class \<Rightarrow> (string \<times> pyval) list \<Rightarrow> (error + unit) \<times> instance_dict" where
  "CustomObject_init E C kwargs =
     and_then (setattr E C Map.empty ''client'' (PObject ''ZendeskAPIClient'' []))
       (\<lambda>u i0. and_then (setattr E C i0 ''id'' PNone)
         (\<lambda>u i1. and_then (setattr E C i1 ''name'' PNone)
           (\<lambda>u i2. init_fields E C kwargs (class_dict C) i2)))"

definition is_namefield_autoincrement :: "CustomObject_class \<Rightarrow> bool" where
  "is_namefield_autoincrement C =
     (case map_of (class_dict C) ''name'' of
        Some (Plain (Name c)) \<Rightarrow> autoincrement_enabled c
      | _ \<Rightarrow> False)"

definition DEFAULT_FIELDS :: "string list" where
  "DEFAULT_FIELDS =
     [''id'', ''name'', ''created_at'', ''updated_at'', ''created_by_user_id'',
      ''updated_by_user_id'', ''external_id'']"

text \<open>
  The call \<open>.get_to_save(self, None)\<close> on a descriptor. No class of fields.py defines a
  method of that name (the representation logic of the choice fields is called
  \<open>get_to_representation\<close>), so looking it up raises \<open>AttributeError\<close>.
\<close>

definition get_to_save :: "descriptor \<Rightarrow> instance_dict \<Rightarrow> error + pyval" where
  "get_to_save d inst = Inl (AttributeError ''get_to_save'')"

text \<open>\<open>isinstance(field, (fields.DropdownField, fields.MultiselectField))\<close>.\<close>

fun is_choice :: "descriptor \<Rightarrow> bool" where
  "is_choice (Plain (DropdownField c)) = True"
| "is_choice (Plain (MultiselectField c)) = True"
| "is_choice d = False"

text \<open>
  The dictionary \<open>default_fields\<close> as \<open>to_save\<close> first builds it: one
  \<open>getattr(self, key, None)\<close> per key, in order.
\<close>

fun read_defaults ::
  "env \<Rightarrow> CustomObject_class \<Rightarrow> instance_dict \<Rightarrow> string list
     \<Rightarrow> (error + (string \<times> pyval) list) \<times> instance_dict" where
  "read_defaults E C inst [] = (Inr [], inst)"
| "read_defaults E C inst (key # keys) =
     (case getattr_default E C inst key of
        (Inl e, inst1) \<Rightarrow> (Inl e, inst1)
      | (Inr v, inst1) \<Rightarrow>
          (case read_defaults E C inst1 keys of
             (Inl e, inst2) \<Rightarrow> (Inl e, inst2)
           | (Inr kvs, inst2) \<Rightarrow> (Inr ((key, v) # kvs), inst2)))"

text \<open>The loop of \<open>to_save\<close> that fills \<open>custom_fields\<close>.\<close>

fun custom_fields ::
  "env \<Rightarrow> CustomObject_class \<Rightarrow> instance_dict \<Rightarrow> (string \<times> descriptor) list
     \<Rightarrow> (string \<times> pyval) list \<Rightarrow> (error + (string \<times> pyval) list) \<times> instance_dict" where
  "custom_fields E C inst [] acc = (Inr acc, inst)"
| "custom_fields E C inst ((attr, d) # rest) acc =
     (if is_choice d then
        (case getattr E C inst attr of
           (Inl e, inst1) \<Rightarrow> (Inl e, inst1)
         | (Inr v, inst1) \<Rightarrow>
             if v \<noteq> PNone then
               (case map_of (class_dict C) attr of
                  None \<Rightarrow> (Inl (KeyError (PStr attr)), inst1)
                | Some d' \<Rightarrow>
                    (case get_to_save d' inst1 of
                       Inl e \<Rightarrow> (Inl e, inst1)
                     | Inr r \<Rightarrow>
                         custom_fields E C inst1 rest
                           (AList.update attr r (AList.update attr PNone acc))))
             else custom_fields E C inst1 rest (AList.update attr PNone acc))
      else
        (case getattr E C inst attr of
           (Inl e, inst1) \<Rightarrow> (Inl e, inst1)
         | (Inr v, inst1) \<Rightarrow> custom_fields E C inst1 rest (AList.update attr v acc)))"

text \<open>\<open>{**custom_fields, **default_fields}\<close>.\<close>

definition merge_dicts :: "(string \<times> pyval) list \<Rightarrow> (string \<times> pyval) list \<Rightarrow> (string \<times> pyval) list" where
  "merge_dicts d1 d2 = foldl (\<lambda>d (k, v). AList.update k v d) d1 d2"

text \<open>\<open>CustomObject.to_save\<close>: the payload or exception, and the instance afterwards.\<close>

definition to_save ::
  "env \<Rightarrow> CustomObject_class \<Rightarrow> instance_dict
     \<Rightarrow> (error + (string \<times> pyval) list) \<times> instance_dict" where
  "to_save E C inst =
     and_then (read_defaults E C inst DEFAULT_FIELDS)
       (\<lambda>defaults inst1.
          and_then (custom_fields E C inst1 (class_dict C) [])
            (\<lambda>custom inst2.
               (Inr (merge_dicts custom (filter (\<lambda>(key, v). v \<noteq> PNone) defaults)), inst2)))"

text \<open>
  The transport collaborator (\<open>self.client\<close>): each call returns the decoded response or
  raises. \<open>save\<close> and \<open>delete\<close> return, beside their outcome and the instance
  afterwards, the requests they issued.
\<close>

record client =
  client_post :: "string \<Rightarrow> pyval \<Rightarrow> error + pyval"
  client_patch :: "string \<Rightarrow> pyval \<Rightarrow> error + pyval"
  client_delete :: "string \<Rightarrow> error + pyval"

datatype request = POST string pyval | PATCH string pyval | DELETE string

text \<open>The first statement of \<open>save\<close>: the request body \<open>data\<close>.\<close>

definition save_data ::
  "env \<Rightarrow> CustomObject_class \<Rightarrow> instance_dict \<Rightarrow> (error + pyval) \<times> instance_dict" where
  "save_data E C inst =
     and_then (to_save E C inst)
       (\<lambda>fields inst1.
          and_then (if \<not> is_namefield_autoincrement C
                    then and_then (getattr E C inst1 ''name'')
                           (\<lambda>v inst2. (Inr (if truthy v then v else PStr ''Unnamed Object''), inst2))
                    else (Inr PNone, inst1))
            (\<lambda>nm inst2.
               and_then (getattr_default E C inst2 ''external_id'')
                 (\<lambda>ext inst3.
                    (Inr (PDict [(''custom_object_record'',
                            PDict [(''custom_object_fields'', PDict fields),
                                   (''name'', nm),
                                   (''external_id'', ext)])]), inst3))))"

text \<open>\<open>response["custom_object_record"][k]\<close>.\<close>

definition record_item :: "pyval \<Rightarrow> string \<Rightarrow> error + pyval" where
  "record_item response k = bind (subscript response ''custom_object_record'') (\<lambda>r. subscript r k)"

text \<open>
  The create branch after the POST has returned \<open>response\<close>: first the two
  \<open>if\<close> statements that raise.
\<close>

definition created_checks ::
  "env \<Rightarrow> CustomObject_class \<Rightarrow> instance_dict \<Rightarrow> pyval \<Rightarrow> (error + unit) \<times> instance_dict" where
  "created_checks E C inst response =
     (case bind (dict_get response ''details'' (PDict []))
             (\<lambda>d. bind (dict_get d ''base'' (PList [PDict []]))
               (\<lambda>b. bind (first_item b) (\<lambda>x. dict_get x ''description'' (PStr [])))) of
        Inl e \<Rightarrow> (Inl e, inst)
      | Inr description \<Rightarrow>
          if description = PStr ''Name already exists. Try another one.'' then
            and_then (getattr E C inst ''name'') (\<lambda>v inst1. (Inl (UniqueConstraintError v), inst1))
          else
            (bind (dict_get response ''status_code'' (PInt 201))
               (\<lambda>sc. if \<not> eq_int sc 201
                      then bind (dict_get response ''details'' (PStr ''Error creating record''))
                             (\<lambda>m. Inl (CreateRecordError m))
                      else Inr ()),
             inst))"

text \<open>
  Then the two assignments \<open>self.id = ...\<close> and \<open>self.name = ...\<close>. They run in
  order, so an exception of the second leaves the first in place.
\<close>

definition store_created ::
  "env \<Rightarrow> CustomObject_class \<Rightarrow> instance_dict \<Rightarrow> pyval \<Rightarrow> (error + pyval) \<times> instance_dict" where
  "store_created E C inst response =
     (case record_item response ''id'' of
        Inl e \<Rightarrow> (Inl e, inst)
      | Inr rid \<Rightarrow>
          and_then (setattr E C inst ''id'' rid)
            (\<lambda>u inst1.
               case record_item response ''name'' of
                 Inl e \<Rightarrow> (Inl e, inst1)
               | Inr rname \<Rightarrow>
                   and_then (setattr E C inst1 ''name'' rname) (\<lambda>u inst2. (Inr response, inst2))))"

definition save_created ::
  "env \<Rightarrow> CustomObject_class \<Rightarrow> instance_dict \<Rightarrow> pyval \<Rightarrow> (error + pyval) \<times> instance_dict" where
  "save_created E C inst response =
     and_then (created_checks E C inst response) (\<lambda>u inst1. store_created E C inst1 response)"

text \<open>The update branch after the PATCH has returned \<open>response\<close>.\<close>

definition save_updated :: "pyval \<Rightarrow> error + pyval" where
  "save_updated response =
     bind (dict_get response ''status_code'' (PInt 200))
       (\<lambda>sc. if \<not> eq_int sc 200
              then bind (dict_get response ''details'' (PStr ''Error updating record''))
                     (\<lambda>m. Inl (UpdateRecordError m))
              else Inr response)"

definition create_path :: "env \<Rightarrow> CustomObject_class \<Rightarrow> string" where
  "create_path E C = ''/custom_objects/'' @ lower E (class_name C) @ ''/records''"

definition update_path :: "env \<Rightarrow> CustomObject_class \<Rightarrow> pyval \<Rightarrow> string" where
  "update_path E C i = ''/custom_objects/'' @ lower E (class_name C) @ ''/records/'' @ py_str E i"


text \<open>\<open>not hasattr(self, "id") or not self.id\<close>.\<close>

definition unsaved ::
  "env \<Rightarrow> CustomObject_class \<Rightarrow> instance_dict \<Rightarrow> (error + bool) \<times> instance_dict" where
  "unsaved E C inst =
     and_then (hasattr E C inst ''id'')
       (\<lambda>h inst1.
          if \<not> h then (Inr True, inst1)
          else and_then (getattr E C inst1 ''id'') (\<lambda>i inst2. (Inr (\<not> truthy i), inst2)))"

text \<open>\<open>CustomObject.save\<close>: outcome, instance afterwards, requests issued.\<close>

definition save ::
  "env \<Rightarrow> client \<Rightarrow> CustomObject_class \<Rightarrow> instance_dict
     \<Rightarrow> (error + pyval) \<times> instance_dict \<times> request list" where
  "save E cl C inst =
     (case save_data E C inst of
        (Inl e, inst1) \<Rightarrow> (Inl e, inst1, [])
      | (Inr data, inst1) \<Rightarrow>
          (case unsaved E C inst1 of
             (Inl e, inst2) \<Rightarrow> (Inl e, inst2, [])
           | (Inr u, inst2) \<Rightarrow>
               if u then
                 (case client_post cl (create_path E C) data of
                    Inl e \<Rightarrow> (Inl e, inst2, [POST (create_path E C) data])
                  | Inr response \<Rightarrow>
                      (fst (save_created E C inst2 response),
                       snd (save_created E C inst2 response),
                       [POST (create_path E C) data]))
               else
                 (case getattr E C inst2 ''id'' of
                    (Inl e, inst3) \<Rightarrow> (Inl e, inst3, [])
                  | (Inr i, inst3) \<Rightarrow>
                      (case client_patch cl (update_path E C i) data of
                         Inl e \<Rightarrow> (Inl e, inst3, [PATCH (update_path E C i) data])
                       | Inr response \<Rightarrow>
                           (save_updated response, inst3, [PATCH (update_path E C i) data])))))"


text \<open>The names under which the attachment fields of a class store the file they build.\<close>

definition cache_names :: "CustomObject_class \<Rightarrow> string list" where
  "cache_names C =
     concat (map (\<lambda>(attr, d). case d of
                    Attachment af \<Rightarrow>
                      (case model_file_attribute_name af of Some mf \<Rightarrow> [mf] | None \<Rightarrow> [])
                  | Plain f \<Rightarrow> [])
               (class_dict C))"

text \<open>The attributes of the instance that the accessors of a descriptor write.\<close>

fun written_slots :: "descriptor \<Rightarrow> string list" where
  "written_slots (Plain f) = [field_name f]"
| "written_slots (Attachment af) =
     concat (map (\<lambda>a. case a of Some s \<Rightarrow> [s] | None \<Rightarrow> [])
               [model_file_attribute_name af, id_field_name af, url_field_name af,
                filename_field_name af, size_field_name af])"

text \<open>
  A class that declares no field under the attribute \<open>id\<close> and no field that writes the
  attribute \<open>id\<close>: then \<open>self.id\<close> is a plain attribute of the instance.
\<close>

definition id_is_plain :: "CustomObject_class \<Rightarrow> bool" where
  "id_is_plain C = (map_of (class_dict C) ''id'' = None
                     \<and> list_all (\<lambda>(attr, d). ''id'' \<notin> set (written_slots d)) (class_dict C))"

text \<open>
  What reading attributes may do to an instance: the only attributes that differ
  afterwards are cache names of attachment fields that were absent before and now hold
  a file.
\<close>

definition caches_only :: "CustomObject_class \<Rightarrow> instance_dict \<Rightarrow> instance_dict \<Rightarrow> bool" where
  "caches_only C inst inst' =
     (\<forall>k. inst' k \<noteq> inst k \<longrightarrow>
          k \<in> set (cache_names C) \<and> inst k = None \<and> (\<exists>a. inst' k = Some (PFile a)))"

section \<open>Declaring a regexp field (fields.py)\<close>

text \<open>
  \<open>re.compile\<close> is a parameter: \<open>Some msg\<close> when it raises \<open>re.error(msg)\<close>, \<open>None\<close> when
  it returns a compiled pattern, an object without \<open>__bool__\<close> or \<open>__len__\<close>.
\<close>

definition check_pattern :: "(string \<Rightarrow> string option) \<Rightarrow> string \<Rightarrow> error + bool" where
  "check_pattern re_compile pattern =
     (case re_compile pattern of
        Some msg \<Rightarrow> Inl (ReError msg)
      | None \<Rightarrow> Inr (truthy (PObject ''Pattern'' [])))"

text \<open>\<open>RegexpField.__init__\<close>.\<close>

definition RegexpField_init :: "(string \<Rightarrow> string option) \<Rightarrow> string \<Rightarrow> string \<Rightarrow> error + field" where
  "RegexpField_init re_compile n pattern =
     bind (check_pattern re_compile pattern)
       (\<lambda>ok. if \<not> ok then Inl (RegexCompileError n) else Inr (RegexpField n pattern))"

section \<open>Looking one record up (record_manager.py)\<close>

text \<open>
  The \<open>QuerySet\<close> of the manager is not part of the sources at hand; its two methods are
  parameters, as is \<open>ZendeskAPIClient().get\<close>. An \<open>HTTPError\<close> carries the status code
  and the decoded body of its response.
\<close>

record 'r QuerySet =
  filter_records :: "(string \<times> pyval) list \<Rightarrow> error + 'r list"
  parse_record_fields :: "pyval \<Rightarrow> error + 'r"

text \<open>\<open>RecordManager.get\<close>; \<open>model_name\<close> is \<open>self.model.__name__\<close>.\<close>

definition RecordManager_get ::
  "env \<Rightarrow> (string \<Rightarrow> error + pyval) \<Rightarrow> 'r QuerySet \<Rightarrow> string \<Rightarrow> (string \<times> pyval) list \<Rightarrow> error + 'r" where
  "RecordManager_get E api_get qs model_name kwargs =
     (case map_of kwargs ''id'' of
        Some record_id \<Rightarrow>
          (case api_get (''/custom_objects/'' @ lower E model_name @ ''/records/''
                           @ py_str E record_id) of
             Inl (HTTPError status body) \<Rightarrow>
               if status = 400 then
                 Inl (BadRequestError (''Bad request for record with ID '' @ py_str E record_id
                                         @ ''. Response: '' @ py_str E body))
               else if status = 404 then Inl (NotFoundError model_name record_id)
               else Inl (HTTPError status body)
           | Inl e \<Rightarrow> Inl e
           | Inr response \<Rightarrow>
               bind (dict_get response ''custom_object_record'' (PDict []))
                 (parse_record_fields qs))
      | None \<Rightarrow>
          bind (filter_records qs kwargs)
            (\<lambda>result.
               if length result = 0
               then Inl (ValueError (model_name @ '' matching query does not exist.''))
               else if length result > 1
               then Inl (ValueError (''Multiple '' @ model_name
                                       @ '' objects returned; expected exactly one.''))
               else Inr (result ! 0)))"

section \<open>DateTime fields\<close>

text \<open>
  The tests import \<open>DateTimeField\<close> from fields.py, which does not define it. This
  section follows the specification and the wire values of test_datetime_field.py:
  the key \<open>{name}\<close> holds the date as \<open>YYYY-MM-DD\<close>, the key \<open>{name}_time\<close> the
  time of day with its UTC offset as \<open>HH:MM:SS[.ffffff]+HH:MM\<close>.
\<close>

text \<open>
  Modelled from the spec: a timezone-aware instant, the value a DateTime field holds
  (\<open>DateTimeField\<close> is missing). The offset is in minutes east of UTC.
\<close>

record instant =
  year :: nat
  month :: nat
  day :: nat
  hour :: nat
  minute :: nat
  second :: nat
  microsecond :: nat
  utcoffset :: int

definition is_leap :: "nat \<Rightarrow> bool" where
  "is_leap y = (y mod 4 = 0 \<and> (y mod 100 \<noteq> 0 \<or> y mod 400 = 0))"

definition days_in_month :: "nat \<Rightarrow> nat \<Rightarrow> nat" where
  "days_in_month y m =
     (if m = 2 then (if is_leap y then 29 else 28)
      else if m = 4 \<or> m = 6 \<or> m = 9 \<or> m = 11 then 30 else 31)"

text \<open>Modelled from the spec: which records are instants (\<open>DateTimeField\<close> is missing).\<close>

definition valid_instant :: "instant \<Rightarrow> bool" where
  "valid_instant i =
     (1 \<le> year i \<and> year i \<le> 9999 \<and> 1 \<le> month i \<and> month i \<le> 12
      \<and> 1 \<le> day i \<and> day i \<le> days_in_month (year i) (month i)
      \<and> hour i < 24 \<and> minute i < 60 \<and> second i < 60 \<and> microsecond i < 1000000
      \<and> - 1440 < utcoffset i \<and> utcoffset i < 1440)"

definition digit_char :: "nat \<Rightarrow> char" where
  "digit_char d = char_of (48 + d)"

definition digit_val :: "char \<Rightarrow> nat" where
  "digit_val c = of_char c - 48"

definition pad2 :: "nat \<Rightarrow> string" where
  "pad2 n = [digit_char (n div 10 mod 10), digit_char (n mod 10)]"

definition pad4 :: "nat \<Rightarrow> string" where
  "pad4 n = pad2 (n div 100) @ pad2 (n mod 100)"

definition pad6 :: "nat \<Rightarrow> string" where
  "pad6 n = pad2 (n div 10000) @ pad4 (n mod 10000)"

definition parse_nat :: "string \<Rightarrow> nat option" where
  "parse_nat s =
     (if s \<noteq> [] \<and> list_all is_digit s
      then Some (foldl (\<lambda>acc c. 10 * acc + digit_val c) 0 s) else None)"

text \<open>Modelled from the spec: the value of the wire key \<open>{name}\<close> (\<open>DateTimeField\<close> is missing).\<close>

definition date_wire :: "instant \<Rightarrow> string" where
  "date_wire i = pad4 (year i) @ ''-'' @ pad2 (month i) @ ''-'' @ pad2 (day i)"

definition offset_wire :: "int \<Rightarrow> string" where
  "offset_wire off =
     (if off < 0 then ''-'' else ''+'') @ pad2 (nat \<bar>off\<bar> div 60) @ '':'' @ pad2 (nat \<bar>off\<bar> mod 60)"

text \<open>
  Modelled from the spec: the value of the wire key \<open>{name}_time\<close>
  (\<open>DateTimeField\<close> is missing).
\<close>

definition time_wire :: "instant \<Rightarrow> string" where
  "time_wire i =
     pad2 (hour i) @ '':'' @ pad2 (minute i) @ '':'' @ pad2 (second i)
     @ (if microsecond i \<noteq> 0 then ''.'' @ pad6 (microsecond i) else [])
     @ offset_wire (utcoffset i)"

definition parse_offset :: "string \<Rightarrow> int option" where
  "parse_offset s =
     (if length s = 6 \<and> (s ! 0 = CHR ''+'' \<or> s ! 0 = CHR ''-'') \<and> s ! 3 = CHR '':'' then
        (case (parse_nat (take 2 (drop 1 s)), parse_nat (drop 4 s)) of
           (Some h, Some m) \<Rightarrow>
             Some ((if s ! 0 = CHR ''-'' then - 1 else 1) * (int h * 60 + int m))
         | _ \<Rightarrow> None)
      else None)"

text \<open>
  Modelled from the spec: reading the two wire values back into one instant
  (\<open>DateTimeField\<close> is missing). \<open>None\<close> when they are not a date and a time of day.
\<close>

definition parse_instant :: "string \<Rightarrow> string \<Rightarrow> instant option" where
  "parse_instant d t =
     (if length d = 10 \<and> d ! 4 = CHR ''-'' \<and> d ! 7 = CHR ''-''
         \<and> 8 \<le> length t \<and> t ! 2 = CHR '':'' \<and> t ! 5 = CHR '':'' then
        (let rest = drop 8 t;
             fraction = (if rest \<noteq> [] \<and> rest ! 0 = CHR ''.''
                         then parse_nat (take 6 (drop 1 rest)) else Some 0);
             zone = (if rest \<noteq> [] \<and> rest ! 0 = CHR ''.'' then drop 7 rest else rest)
         in case (parse_nat (take 4 d), parse_nat (take 2 (drop 5 d)), parse_nat (drop 8 d),
                  parse_nat (take 2 t), parse_nat (take 2 (drop 3 t)),
                  parse_nat (take 2 (drop 6 t)), fraction, parse_offset zone) of
              (Some y, Some mo, Some dd, Some h, Some mi, Some s, Some us, Some off) \<Rightarrow>
                (let i = \<lparr>year = y, month = mo, day = dd, hour = h, minute = mi, second = s,
                          microsecond = us, utcoffset = off\<rparr>
                 in if valid_instant i then Some i else None)
            | _ \<Rightarrow> None)
      else None)"

text \<open>
  Modelled from the spec: writing a DateTime field "decomposes into the two wire keys"
  (\<open>DateTimeField.__set__\<close> is missing).
\<close>

definition DateTimeField_set :: "string \<Rightarrow> instance_dict \<Rightarrow> instant \<Rightarrow> instance_dict" where
  "DateTimeField_set n inst i =
     inst(n \<mapsto> PStr (date_wire i), n @ ''_time'' \<mapsto> PStr (time_wire i))"

text \<open>
  Modelled from the spec: reading a DateTime field, "reconstructed into a single
  timezone-aware instant on read" (\<open>DateTimeField.__get__\<close> is missing).
\<close>

definition DateTimeField_get :: "string \<Rightarrow> instance_dict \<Rightarrow> instant option" where
  "DateTimeField_get n inst =
     (case (inst n, inst (n @ ''_time'')) of
        (Some (PStr d), Some (PStr t)) \<Rightarrow> parse_instant d t
      | _ \<Rightarrow> None)"

section \<open>Fixtures\<close>

text \<open>
  Concrete collaborators and the objects of the test suite (test_base.py), at which the
  theorems below are instantiated.
\<close>

definition stub_upload :: uploader where
  "stub_upload filename cont =
     Inr (PDict [(''upload'',
                  PDict [(''token'', PStr ''tok''),
                         (''attachment'',
                          PDict [(''id'', PInt 7), (''file_name'', filename),
                                 (''content_url'', PStr ''https://files/7''),
                                 (''size'', PInt 3)])])])"

definition test_env :: env where
  "test_env =
     \<lparr>re_match = (\<lambda>pattern s. True),
      py_float = (\<lambda>v. case v of PInt i \<Rightarrow> Inr (PFloat (of_int i)) | PFloat r \<Rightarrow> Inr v
                      | _ \<Rightarrow> Inl TypeError),
      py_str = (\<lambda>v. case v of PStr s \<Rightarrow> s | PNone \<Rightarrow> ''None'' | _ \<Rightarrow> ''object''),
      unidecode = (\<lambda>s. s),
      unicode_lower = (\<lambda>s. s),
      unicode_has_upper = (\<lambda>s. False),
      file_upload = stub_upload,
      fresh_uuid = ''uuid''\<rparr>"

definition MockCustomObject :: CustomObject_class where
  "MockCustomObject =
     \<lparr>class_name = ''MockCustomObject'',
      class_dict = [(''name'', Plain (TextField ''name'')),
                    (''codigo'', Plain (TextField ''codigo'')),
                    (''ativo'', Plain (CheckboxField ''ativo''))]\<rparr>"

definition mock_response :: pyval where
  "mock_response =
     PDict [(''custom_object_record'',
             PDict [(''id'', PStr ''1''), (''name'', PStr ''Test Object''),
                    (''custom_object_fields'',
                     PDict [(''codigo'', PStr ''1234''), (''ativo'', PBool True)])])]"

definition mock_client :: client where
  "mock_client =
     \<lparr>client_post = (\<lambda>path data. Inr mock_response),
      client_patch = (\<lambda>path data. Inr mock_response),
      client_delete = (\<lambda>path. Inr (PDict []))\<rparr>"

text \<open>\<open>MockCustomObject(name="Test Object", codigo="1234", ativo=True)\<close>.\<close>

definition custom_object :: instance_dict where
  "custom_object =
     [''client'' \<mapsto> PObject ''ZendeskAPIClient'' [], ''id'' \<mapsto> PNone,
      ''name'' \<mapsto> PStr ''Test Object'', ''codigo'' \<mapsto> PStr ''1234'', ''ativo'' \<mapsto> PBool True]"

definition stub_queryset :: "pyval list \<Rightarrow> pyval QuerySet" where
  "stub_queryset rs = \<lparr>filter_records = (\<lambda>criteria. Inr rs), parse_record_fields = Inr\<rparr>"

definition local_file :: "pyval AttachmentFile" where
  "local_file = AttachmentFile PNone PNone PNone (PStr ''a.txt'') (PBytes ''abc'') False None"

definition attachment_field :: AttachmentField where
  "attachment_field = contribute_to_class (AttachmentField_init ''file'' ''ticket_file'') ''file''"

definition remote_file :: "pyval AttachmentFile" where
  "remote_file =
     AttachmentFile (PStr ''7'') (PStr ''https://files/7'') (PInt 3) (PStr ''a.txt'') PNone True None"

definition color_field :: ChoiceField where
  "color_field = ChoiceField_init test_env ''color'' (StrChoices [''Dark Red'', ''Blue''])"

definition free_field :: ChoiceField where
  "free_field = ChoiceField_init test_env ''tag'' (StrChoices [])"

text \<open>A class with choice fields and one of its instances.\<close>

definition Ticket :: CustomObject_class where
  "Ticket =
     \<lparr>class_name = ''Ticket'',
      class_dict = [(''title'', Plain (TextField ''title'')),
                    (''tag'', Plain (DropdownField free_field)),
                    (''color'', Plain (DropdownField color_field))]\<rparr>"

definition ticket :: instance_dict where
  "ticket =
     [''id'' \<mapsto> PStr ''9'', ''name'' \<mapsto> PNone, ''title'' \<mapsto> PStr ''T'', ''tag'' \<mapsto> PNone,
      ''color'' \<mapsto> PStr ''blue'']"

text \<open>
  A class with an attachment field, and an instance that holds the four slots of a
  remote attachment but has not yet built its file.
\<close>

definition Report :: CustomObject_class where
  "Report =
     \<lparr>class_name = ''Report'',
      class_dict = [(''title'', Plain (TextField ''title'')),
                    (''file'', Attachment attachment_field)]\<rparr>"

definition report :: instance_dict where
  "report =
     [''id'' \<mapsto> PStr ''5'', ''name'' \<mapsto> PStr ''R'', ''title'' \<mapsto> PStr ''T'',
      ''file_id'' \<mapsto> PStr ''7'', ''file_url'' \<mapsto> PStr ''https://files/7'',
      ''file_filename'' \<mapsto> PStr ''a.txt'', ''file_size'' \<mapsto> PInt 3]"




text \<open>The instant \<open>2023-07-15T10:30:45+00:00\<close> of test_datetime_field.py.\<close>

definition created_at :: instant where
  "created_at = \<lparr>year = 2023, month = 7, day = 15, hour = 10, minute = 30, second = 45,
                  microsecond = 0, utcoffset = 0\<rparr>"

section \<open>Reading attributes of an entity\<close>

lemma caches_only_refl: "caches_only C s s"
  by (simp add: caches_only_def)

lemma caches_onlyD:
  "caches_only C s s' \<Longrightarrow> s' k \<noteq> s k
     \<Longrightarrow> k \<in> set (cache_names C) \<and> s k = None \<and> (\<exists>a. s' k = Some (PFile a))"
  unfolding caches_only_def by blast

lemma caches_onlyI:
  "(\<And>k. s' k \<noteq> s k
      \<Longrightarrow> k \<in> set (cache_names C) \<and> s k = None \<and> (\<exists>a. s' k = Some (PFile a)))
     \<Longrightarrow> caches_only C s s'"
  unfolding caches_only_def by blast

lemma caches_only_trans:
  assumes "caches_only C s s1" and "caches_only C s1 s2"
  shows "caches_only C s s2"
  unfolding caches_only_def
proof (intro allI impI)
  fix k
  assume d: "s2 k \<noteq> s k"
  show "k \<in> set (cache_names C) \<and> s k = None \<and> (\<exists>a. s2 k = Some (PFile a))"
  proof (cases "s1 k = s k")
    case True
    with d have "s2 k \<noteq> s1 k" by simp
    from caches_onlyD[OF assms(2) this] True show ?thesis by simp
  next
    case False
    from caches_onlyD[OF assms(1) False]
    have a: "k \<in> set (cache_names C) \<and> s k = None \<and> (\<exists>a. s1 k = Some (PFile a))" .
    have "s2 k = s1 k"
    proof (rule ccontr)
      assume "s2 k \<noteq> s1 k"
      from caches_onlyD[OF assms(2) this] a show False by auto
    qed
    with a show ?thesis by simp
  qed
qed

lemma caches_only_keeps: "caches_only C s s' \<Longrightarrow> s k = Some v \<Longrightarrow> s' k = Some v"
  using caches_onlyD[of C s s' k] by force

lemma caches_only_outside: "caches_only C s s' \<Longrightarrow> k \<notin> set (cache_names C) \<Longrightarrow> s' k = s k"
  using caches_onlyD[of C s s' k] by blast

lemma caches_only_none: "caches_only C s s' \<Longrightarrow> cache_names C = [] \<Longrightarrow> s' = s"
proof (rule ext)
  fix k
  assume "caches_only C s s'" and "cache_names C = []"
  then show "s' k = s k" using caches_only_outside[of C s s' k] by simp
qed

lemma init_no_content:
  "AttachmentFile_init upload fresh i u s f PNone False
     = (Inr (if truthy i then set_saved True (AttachmentFile i u s (if truthy f then f else PStr fresh) PNone False None)
             else AttachmentFile i u s (if truthy f then f else PStr fresh) PNone False None), [])"
  by (simp add: AttachmentFile_init_def Let_def)

text \<open>Reading an attachment field leaves the instance alone or stores the file it returns.\<close>

lemma AttachmentField_get_cases:
  assumes "AttachmentField_get upload fresh af s = (r, s')"
  shows "(s' = s \<and> (case r of Inl e \<Rightarrow> \<exists>m. e = AttributeError m
                      | Inr v \<Rightarrow> (case model_file_attribute_name af of
                                    None \<Rightarrow> False
                                  | Some mf \<Rightarrow> (case s mf of Some w \<Rightarrow> v = w | None \<Rightarrow> v = PNone))))
         \<or> (\<exists>mf a. model_file_attribute_name af = Some mf \<and> s mf = None
               \<and> s' = s(mf \<mapsto> PFile a) \<and> r = Inr (PFile a))"
  using assms
  by (auto simp: AttachmentField_get_def self_attr_def bind_def init_no_content
        split: option.splits sum.splits if_splits)

lemma cache_names_member:
  "(n, Attachment af) \<in> set (class_dict C) \<Longrightarrow> model_file_attribute_name af = Some mf
     \<Longrightarrow> mf \<in> set (cache_names C)"
  by (force simp: cache_names_def)

lemma getattr_caches:
  assumes "getattr E C s n = (r, s')"
  shows "caches_only C s s'"
proof (cases "map_of (class_dict C) n")
  case None
  with assms show ?thesis by (auto simp: getattr_def caches_only_def split: option.splits)
next
  case (Some d)
  show ?thesis
  proof (cases d)
    case (Plain f)
    with Some assms show ?thesis by (auto simp: getattr_def caches_only_def)
  next
    case (Attachment af)
    with Some have m: "(n, Attachment af) \<in> set (class_dict C)" by (simp add: map_of_SomeD)
    from Some Attachment assms
    have "AttachmentField_get (file_upload E) (fresh_uuid E) af s = (r, s')"
      by (simp add: getattr_def)
    from AttachmentField_get_cases[OF this] cache_names_member[OF m] show ?thesis
      by (auto intro!: caches_onlyI simp: caches_only_refl split: if_splits)
  qed
qed

lemma getattr_error:
  assumes "getattr E C s n = (Inl e, s')"
  shows "\<exists>m. e = AttributeError m"
proof (cases "map_of (class_dict C) n")
  case None
  with assms show ?thesis by (auto simp: getattr_def split: option.splits)
next
  case (Some d)
  show ?thesis
  proof (cases d)
    case (Plain f)
    with Some assms show ?thesis by (simp add: getattr_def)
  next
    case (Attachment af)
    with Some assms
    have "AttachmentField_get (file_upload E) (fresh_uuid E) af s = (Inl e, s')"
      by (simp add: getattr_def)
    from AttachmentField_get_cases[OF this] show ?thesis by auto
  qed
qed

text \<open>A second read of the same attribute gives the same value and changes nothing.\<close>

lemma getattr_again:
  assumes "getattr E C s n = (r, s')"
  shows "getattr E C s' n = (r, s')"
proof (cases "map_of (class_dict C) n")
  case None
  with assms show ?thesis by (auto simp: getattr_def split: option.splits)
next
  case (Some d)
  show ?thesis
  proof (cases d)
    case (Plain f)
    with Some assms show ?thesis by (auto simp: getattr_def)
  next
    case (Attachment af)
    with Some assms
    have g: "AttachmentField_get (file_upload E) (fresh_uuid E) af s = (r, s')"
      by (simp add: getattr_def)
    from AttachmentField_get_cases[OF g]
    have "AttachmentField_get (file_upload E) (fresh_uuid E) af s' = (r, s')"
    proof
      assume "s' = s \<and> (case r of Inl e \<Rightarrow> \<exists>m. e = AttributeError m
                      | Inr v \<Rightarrow> (case model_file_attribute_name af of
                                    None \<Rightarrow> False
                                  | Some mf \<Rightarrow> (case s mf of Some w \<Rightarrow> v = w | None \<Rightarrow> v = PNone)))"
      with g show ?thesis by simp
    next
      assume "\<exists>mf a. model_file_attribute_name af = Some mf \<and> s mf = None
               \<and> s' = s(mf \<mapsto> PFile a) \<and> r = Inr (PFile a)"
      then show ?thesis
        by (auto simp: AttachmentField_get_def self_attr_def)
    qed
    with Some Attachment show ?thesis by (simp add: getattr_def)
  qed
qed

lemma getattr_default_caches:
  "getattr_default E C s n = (r, s') \<Longrightarrow> caches_only C s s'"
  using getattr_caches[of E C s n]
  by (cases "getattr E C s n") (auto simp: getattr_default_def split: sum.splits error.splits)

lemma getattr_default_ok:
  "\<exists>v. fst (getattr_default E C s n) = Inr v"
proof (cases "getattr E C s n")
  case (Pair r s')
  show ?thesis
  proof (cases r)
    case (Inl e)
    with Pair getattr_error[of E C s n e s'] show ?thesis
      by (auto simp: getattr_default_def)
  next
    case (Inr v)
    with Pair show ?thesis by (simp add: getattr_default_def)
  qed
qed

lemma read_defaults_caches:
  "read_defaults E C s ks = (r, s') \<Longrightarrow> caches_only C s s'"
proof (induction ks arbitrary: s r s')
  case Nil
  then show ?case by (simp add: caches_only_refl)
next
  case (Cons k ks)
  obtain r1 s1 where g: "getattr_default E C s k = (r1, s1)" by (cases "getattr_default E C s k")
  note c1 = getattr_default_caches[OF g]
  show ?case
  proof (cases r1)
    case (Inl e)
    with Cons.prems g c1 show ?thesis by simp
  next
    case (Inr v)
    obtain r2 s2 where d: "read_defaults E C s1 ks = (r2, s2)" by (cases "read_defaults E C s1 ks")
    from Cons.IH[OF d] c1 have "caches_only C s s2" by (rule caches_only_trans[rotated])
    with Cons.prems g Inr d show ?thesis by (cases r2) auto
  qed
qed

lemma read_defaults_ok: "\<exists>kvs. fst (read_defaults E C s ks) = Inr kvs"
proof (induction ks arbitrary: s)
  case Nil
  then show ?case by simp
next
  case (Cons k ks)
  obtain r1 s1 where g: "getattr_default E C s k = (r1, s1)" by (cases "getattr_default E C s k")
  with getattr_default_ok[of E C s k] obtain v where v: "r1 = Inr v" by auto
  obtain r2 s2 where d: "read_defaults E C s1 ks = (r2, s2)" by (cases "read_defaults E C s1 ks")
  with Cons.IH[of s1] obtain kvs where "r2 = Inr kvs" by auto
  with g v d show ?case by simp
qed

lemma custom_fields_caches:
  "custom_fields E C s fs acc = (r, s') \<Longrightarrow> caches_only C s s'"
proof (induction fs arbitrary: s acc r s')
  case Nil
  then show ?case by (simp add: caches_only_refl)
next
  case (Cons p fs)
  obtain a d where p: "p = (a, d)" by (cases p)
  obtain r1 s1 where g: "getattr E C s a = (r1, s1)" by (cases "getattr E C s a")
  note c1 = getattr_caches[OF g]
  show ?case
  proof (cases r1)
    case (Inl e)
    with Cons.prems p g c1 show ?thesis by (simp split: if_splits)
  next
    case (Inr v)
    have step: "\<And>acc'. custom_fields E C s1 fs acc' = (r, s') \<Longrightarrow> caches_only C s s'"
      using Cons.IH c1 caches_only_trans by blast
    from Cons.prems p g Inr c1 step show ?thesis
      by (auto simp: get_to_save_def split: if_splits option.splits)
  qed
qed

lemma to_save_caches: "to_save E C s = (r, s') \<Longrightarrow> caches_only C s s'"
proof -
  assume a: "to_save E C s = (r, s')"
  obtain r1 s1 where d: "read_defaults E C s DEFAULT_FIELDS = (r1, s1)"
    by (cases "read_defaults E C s DEFAULT_FIELDS")
  note c1 = read_defaults_caches[OF d]
  show ?thesis
  proof (cases r1)
    case (Inl e)
    with a d c1 show ?thesis by (simp add: to_save_def and_then_def)
  next
    case (Inr defaults)
    obtain r2 s2 where c: "custom_fields E C s1 (class_dict C) [] = (r2, s2)"
      by (cases "custom_fields E C s1 (class_dict C) []")
    from custom_fields_caches[OF c] c1 have "caches_only C s s2"
      by (rule caches_only_trans[rotated])
    with a d Inr c show ?thesis by (cases r2) (auto simp: to_save_def and_then_def)
  qed
qed

lemma save_data_caches: "save_data E C s = (r, s') \<Longrightarrow> caches_only C s s'"
proof -
  assume a: "save_data E C s = (r, s')"
  obtain r1 s1 where t: "to_save E C s = (r1, s1)" by (cases "to_save E C s")
  note c1 = to_save_caches[OF t]
  show ?thesis
  proof (cases r1)
    case (Inl e)
    with a t c1 show ?thesis by (simp add: save_data_def and_then_def)
  next
    case (Inr fields)
    obtain r2 s2 where n: "getattr E C s1 ''name'' = (r2, s2)" by (cases "getattr E C s1 ''name''")
    from getattr_caches[OF n] c1 have c2: "caches_only C s s2" by (rule caches_only_trans[rotated])
    have c3: "\<And>x r3 s3. getattr_default E C x ''external_id'' = (r3, s3)
                \<Longrightarrow> caches_only C s x \<Longrightarrow> caches_only C s s3"
      using getattr_default_caches caches_only_trans by blast
    from a t Inr n c1 c2 c3 show ?thesis
      by (auto simp: save_data_def and_then_def split: if_splits sum.splits prod.splits)
  qed
qed

section \<open>Saving an entity: create or update\<close>

lemma unsaved_via_id:
  assumes "getattr E C s ''id'' = (r, s1)"
  shows "unsaved E C s = (Inr (case r of Inl e \<Rightarrow> True | Inr i \<Rightarrow> \<not> truthy i), s1)"
proof (cases r)
  case (Inl e)
  with assms getattr_error[of E C s "''id''" e s1] show ?thesis
    by (auto simp: unsaved_def hasattr_def and_then_def)
next
  case (Inr i)
  with assms getattr_again[OF assms] show ?thesis
    by (simp add: unsaved_def hasattr_def and_then_def)
qed

lemma unsaved_caches: "unsaved E C s = (r, s') \<Longrightarrow> caches_only C s s'"
proof -
  assume a: "unsaved E C s = (r, s')"
  obtain r1 s1 where g: "getattr E C s ''id'' = (r1, s1)" by (cases "getattr E C s ''id''")
  from unsaved_via_id[OF g] a getattr_caches[OF g] show ?thesis by simp
qed

lemma save_create_path:
  assumes "save_data E C s = (Inr data, s1)" and "getattr E C s1 ''id'' = (r, s2)"
    and "case r of Inl e \<Rightarrow> True | Inr i \<Rightarrow> \<not> truthy i"
  shows "save E cl C s =
           (case client_post cl (create_path E C) data of
              Inl e \<Rightarrow> (Inl e, s2, [POST (create_path E C) data])
            | Inr response \<Rightarrow>
                (fst (save_created E C s2 response), snd (save_created E C s2 response),
                 [POST (create_path E C) data]))"
  using assms unsaved_via_id[OF assms(2)] by (simp add: save_def)

lemma save_update_path:
  assumes "save_data E C s = (Inr data, s1)" and "getattr E C s1 ''id'' = (Inr i, s2)"
    and "truthy i"
  shows "save E cl C s =
           (case client_patch cl (update_path E C i) data of
              Inl e \<Rightarrow> (Inl e, s2, [PATCH (update_path E C i) data])
            | Inr response \<Rightarrow> (save_updated response, s2, [PATCH (update_path E C i) data]))"
  using assms unsaved_via_id[OF assms(2)] getattr_again[OF assms(2)] by (simp add: save_def)

lemma store_created_ok:
  "fst (store_created E C s response) = Inr r \<Longrightarrow>
     r = response \<and> (\<exists>rid rname s1.
           record_item response ''id'' = Inr rid \<and> record_item response ''name'' = Inr rname
           \<and> setattr E C s ''id'' rid = (Inr (), s1)
           \<and> setattr E C s1 ''name'' rname = (Inr (), snd (store_created E C s response)))"
  by (auto simp: store_created_def and_then_def split: sum.splits prod.splits)

lemma created_checks_ok:
  "created_checks E C s response = (Inr u, s1) \<Longrightarrow> s1 = s"
  by (auto simp: created_checks_def and_then_def split: sum.splits prod.splits if_splits)

lemma save_created_ok:
  assumes "fst (save_created E C s response) = Inr r"
  shows "r = response \<and> (\<exists>rid rname s1.
           record_item response ''id'' = Inr rid \<and> record_item response ''name'' = Inr rname
           \<and> setattr E C s ''id'' rid = (Inr (), s1)
           \<and> setattr E C s1 ''name'' rname = (Inr (), snd (save_created E C s response)))"
proof (cases "created_checks E C s response")
  case (Pair c s1)
  show ?thesis
  proof (cases c)
    case (Inl e)
    with Pair assms show ?thesis by (simp add: save_created_def and_then_def)
  next
    case (Inr u)
    with Pair created_checks_ok[of E C s response u s1] have e: "s1 = s" by simp
    with Pair Inr assms have "fst (store_created E C s response) = Inr r"
      by (simp add: save_created_def and_then_def)
    from store_created_ok[OF this] Pair Inr e show ?thesis
      by (simp add: save_created_def and_then_def)
  qed
qed

lemma Field_set_slot:
  "Field_set E f inst v = Inr inst' \<Longrightarrow> \<exists>w. inst' = inst(field_name f \<mapsto> w)"
  by (cases f) (auto simp: Field_set_base_def bind_def split: sum.splits if_splits)

lemma AttachmentField_set_slots:
  assumes "AttachmentField_set af s v = (r, s')" and "k \<notin> set (written_slots (Attachment af))"
  shows "s' k = s k"
  using assms
  by (auto simp: AttachmentField_set_def self_attr_def Let_def
        split: if_splits pyval.splits option.splits)

lemma setattr_keeps_id:
  assumes "id_is_plain C" and "setattr E C s n v = (r, s')" and "n \<noteq> ''id''"
  shows "s' ''id'' = s ''id''"
proof (cases "map_of (class_dict C) n")
  case None
  with assms show ?thesis by (auto simp: setattr_def)
next
  case (Some d)
  then have "(n, d) \<in> set (class_dict C)" by (rule map_of_SomeD)
  with assms(1) have w: "''id'' \<notin> set (written_slots d)"
    by (auto simp: id_is_plain_def list_all_iff)
  show ?thesis
  proof (cases d)
    case (Plain f)
    with assms(2) Some w show ?thesis
      using Field_set_slot[of E f s v]
      by (auto simp: setattr_def split: sum.splits)
  next
    case (Attachment af)
    with assms(2) Some have "AttachmentField_set af s v = (r, s')" by (simp add: setattr_def)
    from AttachmentField_set_slots[OF this] w Attachment show ?thesis by simp
  qed
qed


lemma getattr_plain_id:
  "id_is_plain C \<Longrightarrow>
     getattr E C s ''id''
       = (case s ''id'' of None \<Rightarrow> (Inl (AttributeError ''id''), s) | Some v \<Rightarrow> (Inr v, s))"
  by (simp add: getattr_def id_is_plain_def)


lemma init_fields_keeps_id:
  assumes "id_is_plain C"
  shows "''id'' \<notin> fst ` set fs \<Longrightarrow> init_fields E C kwargs fs s = (r, s')
           \<Longrightarrow> s' ''id'' = s ''id''"
proof (induction fs arbitrary: s)
  case Nil
  then show ?case by simp
next
  case (Cons p fs)
  obtain a d where p: "p = (a, d)" by (cases p)
  from Cons.prems p have na: "a \<noteq> ''id''" and nfs: "''id'' \<notin> fst ` set fs" by auto
  obtain r1 s1 where t: "setattr E C s a (kwargs_get kwargs a) = (r1, s1)"
    by (cases "setattr E C s a (kwargs_get kwargs a)")
  note k = setattr_keeps_id[OF assms t na]
  show ?case
  proof (cases r1)
    case (Inl e)
    with Cons.prems(2) p t k show ?thesis by simp
  next
    case (Inr u)
    with Cons.prems(2) p t have "init_fields E C kwargs fs s1 = (r, s')" by simp
    from Cons.IH[OF nfs this] k show ?thesis by simp
  qed
qed

text \<open>An entity fresh from the constructor has \<open>id = None\<close>, so its \<open>save\<close> creates.\<close>

lemma init_unsaved:
  assumes "id_is_plain C" and "CustomObject_init E C kwargs = (Inr (), s)"
  shows "getattr E C s ''id'' = (Inr PNone, s)"
proof -
  from assms(1) have n: "map_of (class_dict C) ''id'' = None"
    by (simp add: id_is_plain_def)
  then have nk: "''id'' \<notin> fst ` set (class_dict C)"
    by (simp add: map_of_eq_None_iff)
  obtain r0 i0 where
    s0: "setattr E C Map.empty ''client'' (PObject ''ZendeskAPIClient'' []) = (r0, i0)"
    by (cases "setattr E C Map.empty ''client'' (PObject ''ZendeskAPIClient'' [])")
  from n have s1: "setattr E C i0 ''id'' PNone = (Inr (), i0(''id'' \<mapsto> PNone))"
    by (simp add: setattr_def)
  obtain r2 i2 where s2: "setattr E C (i0(''id'' \<mapsto> PNone)) ''name'' PNone = (r2, i2)"
    by (cases "setattr E C (i0(''id'' \<mapsto> PNone)) ''name'' PNone")
  from setattr_keeps_id[OF assms(1) s2] have k: "i2 ''id'' = Some PNone" by simp
  from assms(2) s0 s1 s2 have "\<exists>r. init_fields E C kwargs (class_dict C) i2 = (r, s)"
    by (cases r0; cases r2) (simp_all add: CustomObject_init_def and_then_def)
  then obtain r where "init_fields E C kwargs (class_dict C) i2 = (r, s)" ..
  from init_fields_keeps_id[OF assms(1) nk this] k have "s ''id'' = Some PNone" by simp
  then show ?thesis by (simp add: getattr_plain_id[OF assms(1)])
qed


lemmas eval_defs = save_def save_data_def to_save_def bind_def and_then_def getattr_def
  getattr_default_def hasattr_def
  Field_get_def is_namefield_autoincrement_def unsaved_def create_path_def update_path_def
  merge_dicts_def DEFAULT_FIELDS_def save_created_def save_updated_def
  created_checks_def store_created_def
  record_item_def setattr_def Field_set_base_def isinstance_def

lemma lower_Mock: "lower test_env ''MockCustomObject'' = ''mockcustomobject''"
  unfolding lower_def test_env_def by code_simp


lemma save_data_persisted:
  "save_data test_env MockCustomObject (custom_object(''id'' \<mapsto> PStr ''1''))
     = (Inr (PDict [(''custom_object_record'',
              PDict [(''custom_object_fields'',
                      PDict [(''name'', PStr ''Test Object''), (''codigo'', PStr ''1234''),
                             (''ativo'', PBool True), (''id'', PStr ''1'')]),
                     (''name'', PStr ''Test Object''), (''external_id'', PNone)])]),
        custom_object(''id'' \<mapsto> PStr ''1''))"
  by (simp add: eval_defs MockCustomObject_def custom_object_def)

lemma save_new_outcome:
  "fst (save test_env mock_client MockCustomObject custom_object) = Inr mock_response"
  by (simp add: eval_defs MockCustomObject_def custom_object_def mock_client_def
        mock_response_def)

lemma custom_object_init:
  "CustomObject_init test_env MockCustomObject
     [(''name'', PStr ''Test Object''), (''codigo'', PStr ''1234''), (''ativo'', PBool True)]
     = (Inr (), custom_object)"
  by (simp add: CustomObject_init_def MockCustomObject_def setattr_def and_then_def
        Field_set_base_def isinstance_def kwargs_get_def custom_object_def)


lemma Mock_id: "getattr E MockCustomObject s ''id''
                  = (case s ''id'' of None \<Rightarrow> (Inl (AttributeError ''id''), s) | Some v \<Rightarrow> (Inr v, s))"
  by (simp add: getattr_def MockCustomObject_def)





section \<open>What saving changes on the entity\<close>

lemma save_without_post:
  assumes "\<forall>path body. POST path body \<notin> set (snd (snd (save E cl C s)))"
  shows "caches_only C s (fst (snd (save E cl C s)))"
proof (cases "save_data E C s")
  case (Pair r s1)
  note c1 = save_data_caches[OF Pair]
  show ?thesis
  proof (cases r)
    case (Inl e)
    with Pair c1 show ?thesis by (simp add: save_def)
  next
    case (Inr data)
    obtain q s2 where g: "getattr E C s1 ''id'' = (q, s2)" by (cases "getattr E C s1 ''id''")
    from getattr_caches[OF g] c1 have c2: "caches_only C s s2" by (rule caches_only_trans[rotated])
    show ?thesis
    proof (cases "case q of Inl e \<Rightarrow> True | Inr i \<Rightarrow> \<not> truthy i")
      case True
      from save_create_path[OF Pair[unfolded Inr] g True, of cl] assms show ?thesis
        by (auto split: sum.splits)
    next
      case False
      then obtain i where q: "q = Inr i" and t: "truthy i" by (cases q) auto
      from save_update_path[OF Pair[unfolded Inr] g[unfolded q] t, of cl] c2 show ?thesis
        by (auto split: sum.splits)
    qed
  qed
qed

text \<open>
  C10 (amended). For every entity whose \<open>id\<close> is truthy when the request body has been
  built, \<open>save\<close>, successful or not, leaves every attribute of the instance as it was,
  except that an attachment field read for the body may have stored the file it built
  under its cache attribute, which was absent before; for a class without attachment
  fields the instance's \<open>__dict__\<close> is exactly as it was. The same holds whenever
  \<open>save\<close> issues no create. A successful create changes the instance, beyond such
  caches, by the two assignments of the returned \<open>id\<close> and \<open>name\<close>.
\<close>

theorem save_frame:
  "(save_data E C inst = (Inr data, inst1) \<and> fst (getattr E C inst1 ''id'') = Inr i \<and> truthy i \<longrightarrow>
      caches_only C inst (fst (snd (save E cl C inst)))
      \<and> (cache_names C = [] \<longrightarrow> fst (snd (save E cl C inst)) = inst))
   \<and> ((\<forall>path body. POST path body \<notin> set (snd (snd (save E cl C inst)))) \<longrightarrow>
        caches_only C inst (fst (snd (save E cl C inst))))
   \<and> ((\<exists>path body. POST path body \<in> set (snd (snd (save E cl C inst))))
        \<and> fst (save E cl C inst) = Inr response \<longrightarrow>
        (\<exists>rid rname s2 s3.
           caches_only C inst s2
           \<and> record_item response ''id'' = Inr rid \<and> record_item response ''name'' = Inr rname
           \<and> setattr E C s2 ''id'' rid = (Inr (), s3)
           \<and> setattr E C s3 ''name'' rname = (Inr (), fst (snd (save E cl C inst)))))"
proof (intro conjI impI)
  assume a: "save_data E C inst = (Inr data, inst1) \<and> fst (getattr E C inst1 ''id'') = Inr i
               \<and> truthy i"
  then obtain s2 where g: "getattr E C inst1 ''id'' = (Inr i, s2)"
    by (cases "getattr E C inst1 ''id''") simp
  from a have d: "save_data E C inst = (Inr data, inst1)" and t: "truthy i" by simp_all
  from save_update_path[OF d g t, of cl]
  have "\<forall>path body. POST path body \<notin> set (snd (snd (save E cl C inst)))"
    by (auto split: sum.splits)
  from save_without_post[OF this]
  show c: "caches_only C inst (fst (snd (save E cl C inst)))" .
  assume "cache_names C = []"
  from caches_only_none[OF c this] show "fst (snd (save E cl C inst)) = inst" .
next
  assume "\<forall>path body. POST path body \<notin> set (snd (snd (save E cl C inst)))"
  then show "caches_only C inst (fst (snd (save E cl C inst)))" by (rule save_without_post)
next
  assume a: "(\<exists>path body. POST path body \<in> set (snd (snd (save E cl C inst))))
        \<and> fst (save E cl C inst) = Inr response"
  obtain r s1 where d: "save_data E C inst = (r, s1)" by (cases "save_data E C inst")
  with a obtain data where r: "r = Inr data" by (cases r) (auto simp: save_def)
  obtain q s2 where g: "getattr E C s1 ''id'' = (q, s2)" by (cases "getattr E C s1 ''id''")
  from getattr_caches[OF g] save_data_caches[OF d] have c2: "caches_only C inst s2"
    by (rule caches_only_trans[rotated])
  have cr: "case q of Inl e \<Rightarrow> True | Inr i \<Rightarrow> \<not> truthy i"
  proof (rule ccontr)
    assume "\<not> (case q of Inl e \<Rightarrow> True | Inr i \<Rightarrow> \<not> truthy i)"
    then obtain i where q: "q = Inr i" and t: "truthy i" by (cases q) auto
    from save_update_path[OF d[unfolded r] g[unfolded q] t, of cl] a show False
      by (auto split: sum.splits)
  qed
  note sv = save_create_path[OF d[unfolded r] g cr, of cl]
  from a sv obtain resp where
    f: "fst (save_created E C s2 resp) = Inr response" and
    st: "fst (snd (save E cl C inst)) = snd (save_created E C s2 resp)"
    by (cases "client_post cl (create_path E C) data") auto
  from save_created_ok[OF f] have e: "response = resp" by simp
  from save_created_ok[OF f] c2 st e
  show "\<exists>rid rname s2 s3.
           caches_only C inst s2
           \<and> record_item response ''id'' = Inr rid \<and> record_item response ''name'' = Inr rname
           \<and> setattr E C s2 ''id'' rid = (Inr (), s3)
           \<and> setattr E C s3 ''name'' rname = (Inr (), fst (snd (save E cl C inst)))"
    by auto
qed

lemma Mock_no_caches: "cache_names MockCustomObject = []"
  by (simp add: cache_names_def MockCustomObject_def)

lemma save_new_requests:
  "snd (snd (save test_env mock_client MockCustomObject custom_object))
     = [POST ''/custom_objects/mockcustomobject/records''
          (PDict [(''custom_object_record'',
              PDict [(''custom_object_fields'',
                      PDict [(''name'', PStr ''Test Object''), (''codigo'', PStr ''1234''),
                             (''ativo'', PBool True)]),
                     (''name'', PStr ''Test Object''), (''external_id'', PNone)])])]"
  by (simp add: eval_defs MockCustomObject_def custom_object_def mock_client_def
        mock_response_def lower_Mock)

lemma attachment_slots:
  "model_file_attribute_name attachment_field = Some ''__file_file''
   \<and> id_field_name attachment_field = Some ''file_id''
   \<and> url_field_name attachment_field = Some ''file_url''
   \<and> filename_field_name attachment_field = Some ''file_filename''
   \<and> size_field_name attachment_field = Some ''file_size''"
  by (simp add: attachment_field_def contribute_to_class_def AttachmentField_init_def)

lemma report_file:
  "AttachmentField_get stub_upload ''uuid'' attachment_field report
     = (Inr (PFile remote_file), report(''__file_file'' \<mapsto> PFile remote_file))"
  by (simp add: AttachmentField_get_def attachment_slots self_attr_def bind_def
        slot_or_none_def report_def init_no_content set_saved_def remote_file_def)

theorem save_frame_witness:
  "fst (snd (save test_env mock_client MockCustomObject (custom_object(''id'' \<mapsto> PStr ''1''))))
     = custom_object(''id'' \<mapsto> PStr ''1'')
   \<and> fst (snd (save test_env mock_client MockCustomObject custom_object))
       = custom_object(''id'' \<mapsto> PStr ''1'', ''name'' \<mapsto> PStr ''Test Object'')"
proof -
  let ?inst = "custom_object(''id'' \<mapsto> PStr ''1'')"
  have g: "fst (getattr test_env MockCustomObject ?inst ''id'') = Inr (PStr ''1'')"
    by (simp add: Mock_id)
  have r: "record_item mock_response ''id'' = Inr (PStr ''1'')
           \<and> record_item mock_response ''name'' = Inr (PStr ''Test Object'')"
    by (simp add: record_item_def mock_response_def bind_def)
  have s1: "\<And>s v. setattr test_env MockCustomObject s ''id'' v = (Inr (), s(''id'' \<mapsto> v))"
    by (simp add: setattr_def MockCustomObject_def)
  have s2: "\<And>s. setattr test_env MockCustomObject s ''name'' (PStr ''Test Object'')
              = (Inr (), s(''name'' \<mapsto> PStr ''Test Object''))"
    by (simp add: setattr_def MockCustomObject_def Field_set_base_def isinstance_def)
  have p: "\<exists>path body. POST path body
             \<in> set (snd (snd (save test_env mock_client MockCustomObject custom_object)))"
    by (simp add: save_new_requests)
  note u = save_frame[where E = test_env and C = MockCustomObject and inst = ?inst
      and cl = mock_client and i = "PStr ''1''" and response = mock_response,
      THEN conjunct1, rule_format, OF conjI[OF save_data_persisted conjI[OF g]]]
  have a: "fst (snd (save test_env mock_client MockCustomObject ?inst)) = ?inst"
    using u Mock_no_caches by simp
  from save_frame[where E = test_env and C = MockCustomObject and inst = custom_object
      and cl = mock_client and response = mock_response,
      THEN conjunct2, THEN conjunct2, rule_format, OF conjI[OF p save_new_outcome]]
  obtain rid rname s2 s3 where
    c: "caches_only MockCustomObject custom_object s2" and
    i: "record_item mock_response ''id'' = Inr rid" and
    n: "record_item mock_response ''name'' = Inr rname" and
    t1: "setattr test_env MockCustomObject s2 ''id'' rid = (Inr (), s3)" and
    t2: "setattr test_env MockCustomObject s3 ''name'' rname
           = (Inr (), fst (snd (save test_env mock_client MockCustomObject custom_object)))"
    by blast
  from caches_only_none[OF c Mock_no_caches] have e: "s2 = custom_object" .
  from i n r have "rid = PStr ''1''" "rname = PStr ''Test Object''" by simp_all
  with t1 t2 e have
    "fst (snd (save test_env mock_client MockCustomObject custom_object))
       = custom_object(''id'' \<mapsto> PStr ''1'', ''name'' \<mapsto> PStr ''Test Object'')"
    by (simp add: s1 s2)
  with a show ?thesis by simp
qed

text \<open>
  The claim as stated fails twice. At a non-null but falsy \<open>id\<close>: with \<open>id = ""\<close>
  a successful \<open>save\<close> takes the create path and replaces the \<open>id\<close>. And on the
  update path: a persisted entity with an attachment field that holds the slots of a
  remote attachment gains, by a successful \<open>save\<close>, the attribute under which the
  field caches the file it built for the body.
\<close>

theorem save_frame_counterexample:
  "fst (getattr test_env MockCustomObject (custom_object(''id'' \<mapsto> PStr [])) ''id'') = Inr (PStr [])
   \<and> fst (save test_env mock_client MockCustomObject (custom_object(''id'' \<mapsto> PStr [])))
       = Inr mock_response
   \<and> fst (snd (save test_env mock_client MockCustomObject (custom_object(''id'' \<mapsto> PStr []))))
        ''id'' = Some (PStr ''1'')
   \<and> report ''id'' = Some (PStr ''5'')
   \<and> fst (save test_env mock_client Report report) = Inr mock_response
   \<and> snd (snd (save test_env mock_client Report report))
       = [PATCH ''/custom_objects/report/records/5''
            (PDict [(''custom_object_record'',
               PDict [(''custom_object_fields'',
                       PDict [(''title'', PStr ''T''), (''file'', PFile remote_file),
                              (''id'', PStr ''5''), (''name'', PStr ''R'')]),
                      (''name'', PStr ''R''), (''external_id'', PNone)])])]
   \<and> report ''__file_file'' = None
   \<and> fst (snd (save test_env mock_client Report report)) ''__file_file'' = Some (PFile remote_file)"
proof -
  have a: "fst (getattr test_env MockCustomObject (custom_object(''id'' \<mapsto> PStr [])) ''id'') = Inr (PStr [])
   \<and> fst (save test_env mock_client MockCustomObject (custom_object(''id'' \<mapsto> PStr [])))
       = Inr mock_response
   \<and> fst (snd (save test_env mock_client MockCustomObject (custom_object(''id'' \<mapsto> PStr []))))
        ''id'' = Some (PStr ''1'')"
    by (simp add: eval_defs MockCustomObject_def custom_object_def mock_client_def
          mock_response_def)
  have u: "file_upload test_env = stub_upload \<and> fresh_uuid test_env = ''uuid''
           \<and> py_str test_env (PStr ''5'') = ''5''"
    by (simp add: test_env_def)
  have l: "lower test_env ''Report'' = ''report''"
    unfolding lower_def test_env_def by code_simp
  have g: "\<And>s. getattr test_env Report s ''file''
             = AttachmentField_get stub_upload ''uuid'' attachment_field s"
    by (simp add: getattr_def Report_def u)
  have t: "\<And>s. getattr test_env Report s ''title'' = (Inr (Field_get (TextField ''title'') s), s)"
    by (simp add: getattr_def Report_def)
  have o: "\<And>s n. n \<noteq> ''file'' \<Longrightarrow> n \<noteq> ''title'' \<Longrightarrow> getattr test_env Report s n
             = (case s n of None \<Rightarrow> (Inl (AttributeError n), s) | Some v \<Rightarrow> (Inr v, s))"
    by (simp add: getattr_def Report_def)
  have d: "class_dict Report = [(''title'', Plain (TextField ''title'')),
                                (''file'', Attachment attachment_field)]
           \<and> class_name Report = ''Report''"
    by (simp add: Report_def)
  have r0: "report ''id'' = Some (PStr ''5'') \<and> report ''name'' = Some (PStr ''R'')
            \<and> report ''title'' = Some (PStr ''T'') \<and> report ''created_at'' = None
            \<and> report ''updated_at'' = None \<and> report ''created_by_user_id'' = None
            \<and> report ''updated_by_user_id'' = None \<and> report ''external_id'' = None
            \<and> report ''__file_file'' = None"
    by (simp add: report_def)
  have sd: "save_data test_env Report report
     = (Inr (PDict [(''custom_object_record'',
               PDict [(''custom_object_fields'',
                       PDict [(''title'', PStr ''T''), (''file'', PFile remote_file),
                              (''id'', PStr ''5''), (''name'', PStr ''R'')]),
                      (''name'', PStr ''R''), (''external_id'', PNone)])]),
        report(''__file_file'' \<mapsto> PFile remote_file))"
    by (simp add: save_data_def to_save_def and_then_def getattr_default_def DEFAULT_FIELDS_def
          o t g d r0 Field_get_def report_file merge_dicts_def is_namefield_autoincrement_def)
  have b: "save test_env mock_client Report report
     = (Inr mock_response, report(''__file_file'' \<mapsto> PFile remote_file),
        [PATCH ''/custom_objects/report/records/5''
            (PDict [(''custom_object_record'',
               PDict [(''custom_object_fields'',
                       PDict [(''title'', PStr ''T''), (''file'', PFile remote_file),
                              (''id'', PStr ''5''), (''name'', PStr ''R'')]),
                      (''name'', PStr ''R''), (''external_id'', PNone)])])])"
    by (simp add: save_def sd unsaved_def hasattr_def and_then_def o r0 update_path_def d u l
          mock_client_def save_updated_def mock_response_def bind_def)
  from a b r0 show ?thesis by simp
qed

section \<open>Request paths of save and delete\<close>








section \<open>The payload of save\<close>

lemma custom_fields_choice_raises:
  assumes "map_of (class_dict C) attr = Some (Plain f)" and "is_choice (Plain f)"
    and "v \<noteq> PNone"
  shows "(attr, Plain f) \<in> set fs \<Longrightarrow> set fs \<subseteq> set (class_dict C)
           \<Longrightarrow> s (field_name f) = Some v
           \<Longrightarrow> \<exists>m. fst (custom_fields E C s fs acc) = Inl (AttributeError m)"
proof (induction fs arbitrary: s acc)
  case Nil
  then show ?case by simp
next
  case (Cons p fs)
  obtain a d where p: "p = (a, d)" by (cases p)
  obtain r s1 where g: "getattr E C s a = (r, s1)" by (cases "getattr E C s a")
  from caches_only_keeps[OF getattr_caches[OF g] Cons.prems(3)]
  have k: "s1 (field_name f) = Some v" .
  from Cons.prems(2) p have "a \<in> fst ` set (class_dict C)" by force
  then obtain d' where m: "map_of (class_dict C) a = Some d'"
    by (cases "map_of (class_dict C) a") (simp_all add: map_of_eq_None_iff)
  show ?case
  proof (cases r)
    case (Inl e)
    with getattr_error[of E C s a e s1] g obtain m where "e = AttributeError m" by auto
    with Inl g p show ?thesis by simp
  next
    case (Inr w)
    show ?thesis
    proof (cases "p = (attr, Plain f)")
      case True
      with p have e: "a = attr" "d = Plain f" by simp_all
      from assms(1) Cons.prems(3) have "getattr E C s attr = (Inr v, s)"
        by (simp add: getattr_def Field_get_def)
      with p e assms show ?thesis by (simp add: get_to_save_def)
    next
      case False
      with Cons.prems(1) have i: "(attr, Plain f) \<in> set fs" by simp
      from Cons.prems(2) have sub: "set fs \<subseteq> set (class_dict C)" by simp
      note ih = Cons.IH[where s = s1, OF i sub k]
      show ?thesis
      proof (cases "is_choice d \<and> w \<noteq> PNone")
        case True
        with p g Inr m show ?thesis by (simp add: get_to_save_def)
      next
        case False
        with p g Inr ih show ?thesis by auto
      qed
    qed
  qed
qed

text \<open>
  C2. For a Dropdown or Multiselect field whose value is not \<open>None\<close>, \<open>to_save\<close>
  calls \<open>get_to_save\<close> on the descriptor, a method that no field class defines. So
  for every entity that holds a non-null value in a declared choice field, \<open>to_save\<close>
  raises \<open>AttributeError\<close> instead of returning a payload, and \<open>save\<close> raises the
  same error without issuing a request.
\<close>

theorem to_save_choice_raises:
  assumes "map_of (class_dict C) attr = Some (Plain f)"
    and "is_choice (Plain f)"
    and "inst (field_name f) = Some v" and "v \<noteq> PNone"
  shows "\<exists>m. fst (to_save E C inst) = Inl (AttributeError m)
           \<and> fst (save E cl C inst) = Inl (AttributeError m)
           \<and> snd (snd (save E cl C inst)) = []"
proof -
  obtain r s1 where d: "read_defaults E C inst DEFAULT_FIELDS = (r, s1)"
    by (cases "read_defaults E C inst DEFAULT_FIELDS")
  from read_defaults_ok[of E C inst DEFAULT_FIELDS] d obtain kvs where r: "r = Inr kvs" by auto
  from caches_only_keeps[OF read_defaults_caches[OF d] assms(3)]
  have k: "s1 (field_name f) = Some v" .
  from assms(1) have i: "(attr, Plain f) \<in> set (class_dict C)" by (rule map_of_SomeD)
  from custom_fields_choice_raises[where s = s1 and fs = "class_dict C" and acc = "[]" and E = E,
      OF assms(1,2,4) i subset_refl k]
  obtain m where c: "fst (custom_fields E C s1 (class_dict C) []) = Inl (AttributeError m)"
    by blast
  then obtain s2 where c2: "custom_fields E C s1 (class_dict C) [] = (Inl (AttributeError m), s2)"
    by (cases "custom_fields E C s1 (class_dict C) []") simp
  from d r c2 have t: "to_save E C inst = (Inl (AttributeError m), s2)"
    by (simp add: to_save_def and_then_def)
  then have "save_data E C inst = (Inl (AttributeError m), s2)"
    by (simp add: save_data_def and_then_def)
  with t show ?thesis by (simp add: save_def)
qed

lemma color_name: "cf_name color_field = ''color''"
  by (simp add: color_field_def ChoiceField_init_def)

lemma free_name: "cf_name free_field = ''tag''"
  by (simp add: free_field_def ChoiceField_init_def)

theorem to_save_choice_raises_witness:
  "ticket ''color'' = Some (PStr ''blue'')
   \<and> fst (to_save test_env Ticket ticket) = Inl (AttributeError ''get_to_save'')
   \<and> fst (save test_env mock_client Ticket ticket) = Inl (AttributeError ''get_to_save'')
   \<and> snd (snd (save test_env mock_client Ticket ticket)) = []"
proof -
  have m: "map_of (class_dict Ticket) ''color'' = Some (Plain (DropdownField color_field))"
    by (simp add: Ticket_def)
  have v: "ticket (field_name (DropdownField color_field)) = Some (PStr ''blue'')"
    by (simp add: ticket_def color_name)
  have t: "to_save test_env Ticket ticket = (Inl (AttributeError ''get_to_save''), ticket)"
    by (simp add: eval_defs Ticket_def ticket_def color_name free_name get_to_save_def)
  have c: "is_choice (Plain (DropdownField color_field))"
    by simp
  from to_save_choice_raises[where inst = ticket and E = test_env and cl = mock_client
      and v = "PStr ''blue''", OF m c v] t show ?thesis
    by (auto simp: ticket_def)
qed

section \<open>Assigning None to a field\<close>

lemma validate_None: "validate E f PNone = Inr True"
  by (cases f) simp_all

lemma Field_set_None: "Field_set E f inst PNone = Inr (inst(field_name f \<mapsto> PNone))"
  by (cases f) (simp_all add: Field_set_base_def validate_None)

text \<open>
  C7 (amended). Assigning \<open>None\<close> never raises, for any field kind. For every kind that
  stores through \<open>Field.__set__\<close>, the slot then holds \<open>None\<close> and reading the field
  back, directly or as an attribute of an entity, yields \<open>None\<close>. \<open>AttachmentField\<close>
  ignores the assignment, made directly or to the attribute of an entity: the instance
  is unchanged, and reading back yields \<open>None\<close> only when the instance holds \<open>None\<close>
  as cached file or has no cached file and no truthy attachment id.
\<close>

theorem assigning_None:
  "Field_set E f inst PNone = Inr (inst(field_name f \<mapsto> PNone))
   \<and> Field_get f (inst(field_name f \<mapsto> PNone)) = PNone
   \<and> (map_of (class_dict C) attr = Some (Plain f) \<longrightarrow>
        setattr E C inst attr PNone = (Inr (), inst(field_name f \<mapsto> PNone))
        \<and> getattr E C (inst(field_name f \<mapsto> PNone)) attr
            = (Inr PNone, inst(field_name f \<mapsto> PNone)))
   \<and> (map_of (class_dict C) attr = Some (Attachment af) \<longrightarrow>
        setattr E C inst attr PNone = (Inr (), inst))
   \<and> AttachmentField_set af inst PNone = (Inr (), inst)
   \<and> (model_file_attribute_name af = Some mf \<and> id_field_name af = Some idn
        \<and> url_field_name af = Some un \<and> filename_field_name af = Some fn
        \<and> size_field_name af = Some sn \<longrightarrow>
        (fst (AttachmentField_get upload fresh af (snd (AttachmentField_set af inst PNone)))
           = Inr PNone)
        = (case inst mf of Some v \<Rightarrow> v = PNone | None \<Rightarrow> \<not> truthy (slot_or_none inst idn)))"
  by (auto simp: Field_set_None Field_get_def setattr_def getattr_def AttachmentField_set_def
        AttachmentField_get_def self_attr_def bind_def init_no_content split: option.splits)

text \<open>
  The claim as stated fails for \<open>AttachmentField\<close>: after an attachment has been
  assigned, assigning \<open>None\<close> does not raise and the field still reads as that
  attachment.
\<close>

theorem attachment_None_counterexample:
  "fst (AttachmentField_set attachment_field
          (snd (AttachmentField_set attachment_field Map.empty (PFile remote_file))) PNone)
     = Inr ()
   \<and> fst (AttachmentField_get stub_upload ''uuid'' attachment_field
            (snd (AttachmentField_set attachment_field
                    (snd (AttachmentField_set attachment_field Map.empty (PFile remote_file)))
                    PNone)))
     = Inr (PFile remote_file)"
  by (simp add: AttachmentField_set_def AttachmentField_get_def attachment_field_def
        contribute_to_class_def AttachmentField_init_def self_attr_def Let_def)

theorem assigning_None_witness:
  "setattr test_env MockCustomObject custom_object ''codigo'' PNone
     = (Inr (), custom_object(''codigo'' \<mapsto> PNone))
   \<and> getattr test_env MockCustomObject (custom_object(''codigo'' \<mapsto> PNone)) ''codigo''
       = (Inr PNone, custom_object(''codigo'' \<mapsto> PNone))
   \<and> setattr test_env Report report ''file'' PNone = (Inr (), report)
   \<and> fst (AttachmentField_get stub_upload ''uuid'' attachment_field
            (snd (AttachmentField_set attachment_field Map.empty PNone))) = Inr PNone"
proof -
  have m: "map_of (class_dict MockCustomObject) ''codigo'' = Some (Plain (TextField ''codigo''))"
    by (simp add: MockCustomObject_def)
  have r: "map_of (class_dict Report) ''file'' = Some (Attachment attachment_field)"
    by (simp add: Report_def)
  show ?thesis
    using m r attachment_slots
      assigning_None[where f = "TextField ''codigo''" and C = MockCustomObject
        and attr = "''codigo''" and E = test_env and inst = custom_object
        and af = attachment_field and mf = "''__file_file''" and idn = "''file_id''"
        and un = "''file_url''" and fn = "''file_filename''" and sn = "''file_size''"
        and upload = stub_upload and fresh = "''uuid''"]
      assigning_None[where f = "TextField ''codigo''" and C = Report
        and attr = "''file''" and E = test_env and inst = report
        and af = attachment_field and mf = "''__file_file''" and idn = "''file_id''"
        and un = "''file_url''" and fn = "''file_filename''" and sn = "''file_size''"
        and upload = stub_upload and fresh = "''uuid''"]
      assigning_None[where f = "TextField ''codigo''" and C = MockCustomObject
        and attr = "''codigo''" and E = test_env
        and af = attachment_field and inst = Map.empty
        and mf = "''__file_file''" and idn = "''file_id''" and un = "''file_url''"
        and fn = "''file_filename''" and sn = "''file_size''" and upload = stub_upload
        and fresh = "''uuid''"]
    by (auto simp: slot_or_none_def)
qed

section \<open>Assigning to a choice field\<close>

lemma find_member_None:
  "(find (\<lambda>item. ks \<noteq> [] \<and> \<not> member_of item ks) items = None)
     = (ks = [] \<or> (\<forall>item\<in>set items. member_of item ks))"
  by (auto simp: find_None_iff)

lemma find_member_Some:
  "find (\<lambda>item. ks \<noteq> [] \<and> \<not> member_of item ks) items = Some x
     \<Longrightarrow> x \<in> set items \<and> \<not> member_of x ks \<and> ks \<noteq> []"
  by (auto simp: find_Some_iff)

lemma find_member_keys:
  "ks \<noteq> [] \<Longrightarrow> find (\<lambda>item. ks \<noteq> [] \<and> \<not> member_of item ks) items
                    = find (\<lambda>item. \<not> member_of item ks) items"
  by simp

lemma dropdown_set:
  "Field_set_base E (DropdownField c) inst v =
     (if v = PNone then Inr (inst(cf_name c \<mapsto> v))
      else if \<not> isinstance v TStr then Inl (FieldTypeError (cf_name c) TStr)
      else if possible_keys c \<noteq> [] \<and> \<not> member_of v (possible_keys c)
        then Inl (InvalidChoiceError (cf_name c) v)
      else Inr (inst(cf_name c \<mapsto> v)))"
  by (simp add: Field_set_base_def)

lemma multiselect_set_list:
  "Field_set_base E (MultiselectField c) inst (PList items) =
     (case find (\<lambda>item. possible_keys c \<noteq> [] \<and> \<not> member_of item (possible_keys c)) items of
        Some item \<Rightarrow> Inl (InvalidChoiceError (cf_name c) item)
      | None \<Rightarrow> Inr (inst(cf_name c \<mapsto> PList items)))"
  by (simp add: Field_set_base_def split: option.splits)

lemma multiselect_set_other:
  "w \<noteq> PNone \<Longrightarrow> \<forall>items. w \<noteq> PList items
     \<Longrightarrow> Field_set_base E (MultiselectField c) inst w = Inl (FieldTypeError (cf_name c) TList)"
  by (cases w) (simp_all add: Field_set_base_def)

lemma multiselect_set_ok:
  "Field_set E (MultiselectField c) inst v = Inr inst' \<Longrightarrow>
     inst' = inst(cf_name c \<mapsto> v)
     \<and> (v = PNone \<or> (\<exists>items. v = PList items
            \<and> (possible_keys c = [] \<or> (\<forall>item\<in>set items. member_of item (possible_keys c)))))"
proof (cases v)
  case (PList items)
  assume a: "Field_set E (MultiselectField c) inst v = Inr inst'"
  show ?thesis
  proof (cases "find (\<lambda>item. possible_keys c \<noteq> [] \<and> \<not> member_of item (possible_keys c)) items")
    case None
    with a PList show ?thesis
      using find_member_None[of "possible_keys c" items]
      by (simp add: multiselect_set_list)
  next
    case (Some x)
    with a PList show ?thesis by (simp add: multiselect_set_list)
  qed
qed (simp_all add: Field_set_base_def)

lemma isinstance_TStr: "isinstance v TStr = (\<exists>s. v = PStr s)"
  by (cases v) (simp_all add: isinstance_def)

text \<open>
  C4 (amended). For a Dropdown or Multiselect field whose \<open>possible_keys\<close> is not empty,
  assigning a string that is not a key (for Multiselect, a list with an element that is
  not a key) raises \<open>InvalidChoiceError\<close>, for a list with its first element that is
  not a key. For every such field, assigning a key (a list of keys) succeeds and reads
  back unchanged. A field whose \<open>possible_keys\<close> is empty accepts every string (every
  list). A value other than \<open>None\<close> that is not a string (not a list) raises
  \<open>FieldTypeError\<close>, and \<open>None\<close> is stored. After every successful assignment the
  value reads back unchanged and is \<open>None\<close>, or a string (a list) that consists of keys
  unless \<open>possible_keys\<close> is empty.
\<close>

theorem choice_assignment:
  "(possible_keys c \<noteq> [] \<and> s \<notin> set (possible_keys c) \<longrightarrow>
      Field_set E (DropdownField c) inst (PStr s) = Inl (InvalidChoiceError (cf_name c) (PStr s)))
   \<and> (possible_keys c \<noteq> [] \<and> (\<exists>item\<in>set items. \<not> member_of item (possible_keys c)) \<longrightarrow>
      (\<exists>item\<in>set items. \<not> member_of item (possible_keys c)
         \<and> Field_set E (MultiselectField c) inst (PList items)
             = Inl (InvalidChoiceError (cf_name c) item)))
   \<and> (possible_keys c \<noteq> [] \<and> find (\<lambda>item. \<not> member_of item (possible_keys c)) items = Some x \<longrightarrow>
      Field_set E (MultiselectField c) inst (PList items)
        = Inl (InvalidChoiceError (cf_name c) x))
   \<and> (s \<in> set (possible_keys c) \<longrightarrow>
      Field_set E (DropdownField c) inst (PStr s) = Inr (inst(cf_name c \<mapsto> PStr s))
      \<and> Field_get (DropdownField c) (inst(cf_name c \<mapsto> PStr s)) = PStr s)
   \<and> ((\<forall>item\<in>set items. member_of item (possible_keys c)) \<longrightarrow>
      Field_set E (MultiselectField c) inst (PList items) = Inr (inst(cf_name c \<mapsto> PList items))
      \<and> Field_get (MultiselectField c) (inst(cf_name c \<mapsto> PList items)) = PList items)
   \<and> (possible_keys c = [] \<longrightarrow>
      Field_set E (DropdownField c) inst (PStr s) = Inr (inst(cf_name c \<mapsto> PStr s))
      \<and> Field_set E (MultiselectField c) inst (PList items)
          = Inr (inst(cf_name c \<mapsto> PList items)))
   \<and> (w \<noteq> PNone \<and> \<not> isinstance w TStr \<longrightarrow>
      Field_set E (DropdownField c) inst w = Inl (FieldTypeError (cf_name c) TStr))
   \<and> (w \<noteq> PNone \<and> (\<forall>xs. w \<noteq> PList xs) \<longrightarrow>
      Field_set E (MultiselectField c) inst w = Inl (FieldTypeError (cf_name c) TList))
   \<and> Field_set E (DropdownField c) inst PNone = Inr (inst(cf_name c \<mapsto> PNone))
   \<and> Field_set E (MultiselectField c) inst PNone = Inr (inst(cf_name c \<mapsto> PNone))
   \<and> (Field_set E (DropdownField c) inst v = Inr inst' \<longrightarrow>
      Field_get (DropdownField c) inst' = v
      \<and> (v = PNone \<or> (\<exists>k. v = PStr k \<and> (possible_keys c = [] \<or> k \<in> set (possible_keys c)))))
   \<and> (Field_set E (MultiselectField c) inst v = Inr inst' \<longrightarrow>
      Field_get (MultiselectField c) inst' = v
      \<and> (v = PNone \<or> (\<exists>xs. v = PList xs
            \<and> (possible_keys c = [] \<or> (\<forall>item\<in>set xs. member_of item (possible_keys c))))))"
proof (intro conjI impI)
  assume "possible_keys c \<noteq> [] \<and> s \<notin> set (possible_keys c)"
  then show "Field_set E (DropdownField c) inst (PStr s)
               = Inl (InvalidChoiceError (cf_name c) (PStr s))"
    by (simp add: dropdown_set isinstance_def)
next
  assume a: "possible_keys c \<noteq> [] \<and> (\<exists>item\<in>set items. \<not> member_of item (possible_keys c))"
  then have "find (\<lambda>item. possible_keys c \<noteq> [] \<and> \<not> member_of item (possible_keys c)) items \<noteq> None"
    using find_member_None[of "possible_keys c" items] by auto
  then obtain x where x: "find (\<lambda>item. possible_keys c \<noteq> [] \<and> \<not> member_of item (possible_keys c)) items = Some x"
    by auto
  from find_member_Some[OF x] x
  show "\<exists>item\<in>set items. \<not> member_of item (possible_keys c)
         \<and> Field_set E (MultiselectField c) inst (PList items)
             = Inl (InvalidChoiceError (cf_name c) item)"
    by (auto simp: multiselect_set_list)
next
  assume "possible_keys c \<noteq> [] \<and> find (\<lambda>item. \<not> member_of item (possible_keys c)) items = Some x"
  then show "Field_set E (MultiselectField c) inst (PList items)
        = Inl (InvalidChoiceError (cf_name c) x)"
    by (simp add: multiselect_set_list find_member_keys)
next
  assume "s \<in> set (possible_keys c)"
  then show "Field_set E (DropdownField c) inst (PStr s) = Inr (inst(cf_name c \<mapsto> PStr s))"
    by (simp add: dropdown_set isinstance_def)
next
  show "Field_get (DropdownField c) (inst(cf_name c \<mapsto> PStr s)) = PStr s"
    by (simp add: Field_get_def)
next
  assume "\<forall>item\<in>set items. member_of item (possible_keys c)"
  then have "find (\<lambda>item. possible_keys c \<noteq> [] \<and> \<not> member_of item (possible_keys c)) items = None"
    using find_member_None[of "possible_keys c" items] by simp
  then show "Field_set E (MultiselectField c) inst (PList items)
               = Inr (inst(cf_name c \<mapsto> PList items))"
    by (simp add: multiselect_set_list)
next
  show "Field_get (MultiselectField c) (inst(cf_name c \<mapsto> PList items)) = PList items"
    by (simp add: Field_get_def)
next
  assume "possible_keys c = []"
  then show "Field_set E (DropdownField c) inst (PStr s) = Inr (inst(cf_name c \<mapsto> PStr s))"
    by (simp add: dropdown_set isinstance_def)
next
  assume "possible_keys c = []"
  then have "find (\<lambda>item. possible_keys c \<noteq> [] \<and> \<not> member_of item (possible_keys c)) items = None"
    using find_member_None[of "possible_keys c" items] by simp
  then show "Field_set E (MultiselectField c) inst (PList items)
          = Inr (inst(cf_name c \<mapsto> PList items))"
    by (simp add: multiselect_set_list)
next
  assume "w \<noteq> PNone \<and> \<not> isinstance w TStr"
  then show "Field_set E (DropdownField c) inst w = Inl (FieldTypeError (cf_name c) TStr)"
    by (simp add: dropdown_set)
next
  assume "w \<noteq> PNone \<and> (\<forall>xs. w \<noteq> PList xs)"
  then show "Field_set E (MultiselectField c) inst w = Inl (FieldTypeError (cf_name c) TList)"
    by (simp add: multiselect_set_other)
next
  show "Field_set E (DropdownField c) inst PNone = Inr (inst(cf_name c \<mapsto> PNone))"
    by (simp add: dropdown_set)
next
  show "Field_set E (MultiselectField c) inst PNone = Inr (inst(cf_name c \<mapsto> PNone))"
    by (simp add: Field_set_base_def)
next
  assume "Field_set E (DropdownField c) inst v = Inr inst'"
  then show "Field_get (DropdownField c) inst' = v"
    by (auto simp: dropdown_set Field_get_def split: if_splits)
next
  assume "Field_set E (DropdownField c) inst v = Inr inst'"
  then show "v = PNone \<or> (\<exists>k. v = PStr k \<and> (possible_keys c = [] \<or> k \<in> set (possible_keys c)))"
    by (auto simp: dropdown_set isinstance_TStr split: if_splits)
next
  assume "Field_set E (MultiselectField c) inst v = Inr inst'"
  from multiselect_set_ok[OF this] show "Field_get (MultiselectField c) inst' = v"
    by (simp add: Field_get_def)
next
  assume "Field_set E (MultiselectField c) inst v = Inr inst'"
  from multiselect_set_ok[OF this]
  show "v = PNone \<or> (\<exists>xs. v = PList xs
            \<and> (possible_keys c = [] \<or> (\<forall>item\<in>set xs. member_of item (possible_keys c))))"
    by simp
qed

lemma color_keys: "possible_keys color_field = [''dark_red'', ''blue'']"
  unfolding color_field_def ChoiceField_init_def normalize_choice_def lower_def test_env_def
  by code_simp

lemma free_keys: "possible_keys free_field = []"
  by (simp add: free_field_def ChoiceField_init_def)

text \<open>
  The claim as stated fails twice: a field declared with no choices accepts a string
  that is not a member of its (empty) \<open>possible_keys\<close>, and a non-null value that is
  not a string raises \<open>FieldTypeError\<close>, not \<open>InvalidChoiceError\<close>.
\<close>

theorem choice_assignment_counterexample:
  "\<not> member_of (PStr ''x'') (possible_keys free_field)
   \<and> Field_set test_env (DropdownField free_field) Map.empty (PStr ''x'') = Inr [''tag'' \<mapsto> PStr ''x'']
   \<and> \<not> member_of (PInt 5) (possible_keys color_field)
   \<and> Field_set test_env (DropdownField color_field) Map.empty (PInt 5)
       = Inl (FieldTypeError ''color'' TStr)"
  by (simp add: free_keys free_name color_name Field_set_base_def isinstance_def)

theorem choice_assignment_witness:
  "Field_set test_env (DropdownField color_field) Map.empty (PStr ''Blue'')
     = Inl (InvalidChoiceError ''color'' (PStr ''Blue''))
   \<and> Field_set test_env (DropdownField color_field) Map.empty (PStr ''blue'')
       = Inr [''color'' \<mapsto> PStr ''blue'']
   \<and> Field_get (DropdownField color_field) [''color'' \<mapsto> PStr ''blue''] = PStr ''blue''
   \<and> Field_set test_env (MultiselectField color_field) Map.empty
         (PList [PStr ''blue'', PStr ''dark_red''])
       = Inr [''color'' \<mapsto> PList [PStr ''blue'', PStr ''dark_red'']]
   \<and> Field_get (MultiselectField color_field)
         [''color'' \<mapsto> PList [PStr ''blue'', PStr ''dark_red'']]
       = PList [PStr ''blue'', PStr ''dark_red'']
   \<and> Field_set test_env (MultiselectField color_field) Map.empty
         (PList [PStr ''blue'', PStr ''green'', PStr ''red''])
       = Inl (InvalidChoiceError ''color'' (PStr ''green''))
   \<and> Field_set test_env (DropdownField free_field) Map.empty (PStr ''Blue'')
       = Inr [''tag'' \<mapsto> PStr ''Blue'']
   \<and> Field_set test_env (MultiselectField free_field) Map.empty
         (PList [PStr ''blue'', PStr ''green'', PStr ''red''])
       = Inr [''tag'' \<mapsto> PList [PStr ''blue'', PStr ''green'', PStr ''red'']]
   \<and> Field_set test_env (DropdownField color_field) Map.empty (PInt 5)
       = Inl (FieldTypeError ''color'' TStr)
   \<and> Field_set test_env (MultiselectField color_field) Map.empty (PInt 5)
       = Inl (FieldTypeError ''color'' TList)"
proof -
  have d: "Field_set test_env (DropdownField color_field) Map.empty (PStr ''blue'')
             = Inr [''color'' \<mapsto> PStr ''blue'']"
    by (simp add: Field_set_base_def isinstance_def color_keys color_name)
  have m: "Field_set test_env (MultiselectField color_field) Map.empty
             (PList [PStr ''blue'', PStr ''dark_red''])
             = Inr [''color'' \<mapsto> PList [PStr ''blue'', PStr ''dark_red'']]"
    by (simp add: Field_set_base_def color_keys color_name)
  have i: "PInt 5 \<noteq> PNone \<and> \<not> isinstance (PInt 5) TStr \<and> (\<forall>xs. PInt 5 \<noteq> PList xs)"
    by (simp add: isinstance_def)
  show ?thesis
    using choice_assignment[where c = color_field and s = "''Blue''" and E = test_env
        and inst = Map.empty and items = "[PStr ''blue'', PStr ''green'', PStr ''red'']"
        and x = "PStr ''green''" and w = "PInt 5"
        and v = "PStr ''blue''" and inst' = "[''color'' \<mapsto> PStr ''blue'']"]
      choice_assignment[where c = color_field and s = "''blue''" and E = test_env
        and inst = Map.empty and items = "[PStr ''blue'', PStr ''dark_red'']"
        and x = "PStr ''green''" and w = "PInt 5"
        and v = "PList [PStr ''blue'', PStr ''dark_red'']"
        and inst' = "[''color'' \<mapsto> PList [PStr ''blue'', PStr ''dark_red'']]"]
      choice_assignment[where c = free_field and s = "''Blue''" and E = test_env
        and inst = Map.empty and items = "[PStr ''blue'', PStr ''green'', PStr ''red'']"
        and x = "PStr ''green''" and w = "PInt 5"
        and v = "PStr ''blue''" and inst' = "[''color'' \<mapsto> PStr ''blue'']"]
      d m i
    by (auto simp: color_keys color_name free_keys free_name)
qed

section \<open>Looking one record up by criteria\<close>

text \<open>
  C5. \<open>RecordManager.get\<close> called without \<open>id\<close> delegates to \<open>filter\<close> (an exception of
  \<open>filter\<close> is its own). It fails with the same kind of error, \<open>ValueError\<close>, when no
  record matches and when more than one matches, and returns the record when exactly one
  matches.
\<close>

theorem get_by_criteria:
  assumes "map_of kwargs ''id'' = None"
  shows "RecordManager_get E api_get qs model_name kwargs =
           (case filter_records qs kwargs of
              Inl e \<Rightarrow> Inl e
            | Inr [] \<Rightarrow> Inl (ValueError (model_name @ '' matching query does not exist.''))
            | Inr [r] \<Rightarrow> Inr r
            | Inr (r # r' # rs) \<Rightarrow>
                Inl (ValueError (''Multiple '' @ model_name
                                   @ '' objects returned; expected exactly one.'')))"
  using assms
  by (simp add: RecordManager_get_def bind_def split: sum.splits list.splits)

theorem get_by_criteria_witness:
  "RecordManager_get test_env (\<lambda>path. Inl TypeError) (stub_queryset [])
     ''MockModel'' [(''codigo'', PStr ''1234'')]
     = Inl (ValueError ''MockModel matching query does not exist.'')
   \<and> RecordManager_get test_env (\<lambda>path. Inl TypeError) (stub_queryset [PStr ''r1''])
       ''MockModel'' [(''codigo'', PStr ''1234'')] = Inr (PStr ''r1'')
   \<and> RecordManager_get test_env (\<lambda>path. Inl TypeError) (stub_queryset [PStr ''r1'', PStr ''r2''])
       ''MockModel'' [(''codigo'', PStr ''1234'')]
     = Inl (ValueError ''Multiple MockModel objects returned; expected exactly one.'')"
proof -
  have h: "map_of [(''codigo'', PStr ''1234'')] ''id'' = None" by simp
  show ?thesis
    using get_by_criteria[OF h, of test_env "\<lambda>path. Inl TypeError" "stub_queryset []" "''MockModel''"]
      get_by_criteria[OF h, of test_env "\<lambda>path. Inl TypeError" "stub_queryset [PStr ''r1'']"
        "''MockModel''"]
      get_by_criteria[OF h, of test_env "\<lambda>path. Inl TypeError"
        "stub_queryset [PStr ''r1'', PStr ''r2'']" "''MockModel''"]
    by (simp add: stub_queryset_def)
qed

section \<open>Declaring a regexp field with a bad pattern\<close>

text \<open>
  C6. \<open>RegexpField.__init__\<close> means to raise \<open>RegexCompileError\<close> for a pattern that
  does not compile, but it tests the truth value of \<open>re.compile(pattern)\<close>: for such a
  pattern \<open>re.compile\<close> raises \<open>re.error\<close>, which leaves the constructor as it is,
  and a compiled pattern is always true. At the pattern \<open>(\<close> the constructor raises
  \<open>re.error\<close>, and whatever \<open>re.compile\<close> does it never raises \<open>RegexCompileError\<close>.
\<close>

theorem regexp_init_raises_re_error:
  "RegexpField_init (\<lambda>p. if p = ''('' then Some ''missing ), unterminated subpattern'' else None)
     ''code'' ''('' = Inl (ReError ''missing ), unterminated subpattern'')
   \<and> (\<forall>re_compile n pattern m. RegexpField_init re_compile n pattern \<noteq> Inl (RegexCompileError m))"
  by (simp add: RegexpField_init_def check_pattern_def bind_def split: option.splits)

section \<open>Saving an attachment\<close>

lemma store_upload_saved:
  "fst (store_upload a ud) = Inr u \<Longrightarrow> saved (snd (store_upload a ud))"
  by (simp add: store_upload_def Let_def set_saved_def split: sum.splits)

lemma save_uploads_le: "length (snd (snd (AttachmentFile_save upload a))) \<le> 1"
  by (simp add: AttachmentFile_save_def split: sum.splits)

lemma save_ok_saved:
  "AttachmentFile_save upload a = (Inr u, a1, ups) \<Longrightarrow> saved a1"
  by (auto simp: AttachmentFile_save_def store_upload_saved split: if_splits sum.splits)

lemma save_saved: "saved a \<Longrightarrow> AttachmentFile_save upload a = (Inr (), a, [])"
  by (simp add: AttachmentFile_save_def)

lemma save_twice_uploads: "length (snd (snd (save_twice upload a))) \<le> 1"
proof (cases "AttachmentFile_save upload a")
  case (fields r a1 ups1)
  have l: "length ups1 \<le> 1" using save_uploads_le[of upload a] fields by simp
  show ?thesis
  proof (cases r)
    case (Inl e)
    with fields l show ?thesis by (simp add: save_twice_def)
  next
    case (Inr u)
    with fields have "saved a1" using save_ok_saved by blast
    then have "AttachmentFile_save upload a1 = (Inr (), a1, [])" by (rule save_saved)
    with fields Inr l show ?thesis by (simp add: save_twice_def)
  qed
qed

text \<open>
  C8. \<open>AttachmentFile.save\<close> on an object with \<open>saved = true\<close> uploads nothing, changes
  nothing and returns without error, also when called twice; two calls in a row upload
  at most once whatever the object. With \<open>saved = false\<close> it raises \<open>ValueError\<close>
  without uploading when the content is absent or not \<open>bytes\<close>; otherwise it requests
  one upload of its filename and content and, when the response has the expected
  entries, stores the remote id, filename, url, size and the upload token and sets
  \<open>saved = true\<close>.
\<close>

theorem attachment_save_idempotent:
  "(saved a \<longrightarrow> AttachmentFile_save upload a = (Inr (), a, [])
                \<and> save_twice upload a = (Inr (), a, []))
   \<and> length (snd (snd (save_twice upload a))) \<le> 1
   \<and> (\<not> saved a \<and> \<not> isinstance (content a) TBytes \<longrightarrow>
        AttachmentFile_save upload a
          = (Inl (ValueError ''Content attribute must be of type bytes.''), a, []))
   \<and> (\<not> saved a \<and> isinstance (content a) TBytes \<longrightarrow>
        snd (snd (AttachmentFile_save upload a)) = [(attachment_filename a, content a)])
   \<and> (\<not> saved a \<and> isinstance (content a) TBytes
        \<and> upload (attachment_filename a) (content a) = Inr response
        \<and> subscript response ''upload'' = Inr upload_data
        \<and> attachment_item upload_data ''id'' = Inr i
        \<and> attachment_item upload_data ''file_name'' = Inr f
        \<and> attachment_item upload_data ''content_url'' = Inr u
        \<and> attachment_item upload_data ''size'' = Inr s
        \<and> subscript upload_data ''token'' = Inr t \<longrightarrow>
        AttachmentFile_save upload a
          = (Inr (), AttachmentFile i u s f (content a) True (Some t),
             [(attachment_filename a, content a)]))"
proof (intro conjI impI)
  assume "saved a"
  then show "AttachmentFile_save upload a = (Inr (), a, [])" by (rule save_saved)
next
  assume "saved a"
  then show "save_twice upload a = (Inr (), a, [])" by (simp add: save_twice_def save_saved)
next
  show "length (snd (snd (save_twice upload a))) \<le> 1" by (rule save_twice_uploads)
next
  assume "\<not> saved a \<and> \<not> isinstance (content a) TBytes"
  then show "AttachmentFile_save upload a
          = (Inl (ValueError ''Content attribute must be of type bytes.''), a, [])"
    by (simp add: AttachmentFile_save_def)
next
  assume "\<not> saved a \<and> isinstance (content a) TBytes"
  then show "snd (snd (AttachmentFile_save upload a)) = [(attachment_filename a, content a)]"
    by (simp add: AttachmentFile_save_def split: sum.splits)
next
  assume "\<not> saved a \<and> isinstance (content a) TBytes
        \<and> upload (attachment_filename a) (content a) = Inr response
        \<and> subscript response ''upload'' = Inr upload_data
        \<and> attachment_item upload_data ''id'' = Inr i
        \<and> attachment_item upload_data ''file_name'' = Inr f
        \<and> attachment_item upload_data ''content_url'' = Inr u
        \<and> attachment_item upload_data ''size'' = Inr s
        \<and> subscript upload_data ''token'' = Inr t"
  then show "AttachmentFile_save upload a
          = (Inr (), AttachmentFile i u s f (content a) True (Some t),
             [(attachment_filename a, content a)])"
    by (simp add: AttachmentFile_save_def upload_attachment_def bind_def store_upload_def
          Let_def set_saved_def set_token_def set_attachment_id_def set_attachment_url_def
          set_attachment_size_def set_attachment_filename_def)
qed

theorem attachment_save_idempotent_witness:
  "AttachmentFile_save stub_upload local_file
     = (Inr (), AttachmentFile (PInt 7) (PStr ''https://files/7'') (PInt 3) (PStr ''a.txt'')
                  (PBytes ''abc'') True (Some (PStr ''tok'')),
        [(PStr ''a.txt'', PBytes ''abc'')])
   \<and> length (snd (snd (save_twice stub_upload local_file))) \<le> 1
   \<and> AttachmentFile_save stub_upload (set_saved True local_file)
       = (Inr (), set_saved True local_file, [])
   \<and> AttachmentFile_save stub_upload (set_content PNone local_file)
       = (Inl (ValueError ''Content attribute must be of type bytes.''),
          set_content PNone local_file, [])"
proof -
  let ?att = "PDict [(''id'', PInt 7), (''file_name'', PStr ''a.txt''),
                     (''content_url'', PStr ''https://files/7''), (''size'', PInt 3)]"
  let ?ud = "PDict [(''token'', PStr ''tok''), (''attachment'', ?att)]"
  have h: "\<not> saved local_file \<and> isinstance (content local_file) TBytes
        \<and> stub_upload (attachment_filename local_file) (content local_file)
            = Inr (PDict [(''upload'', ?ud)])
        \<and> subscript (PDict [(''upload'', ?ud)]) ''upload'' = Inr ?ud
        \<and> attachment_item ?ud ''id'' = Inr (PInt 7)
        \<and> attachment_item ?ud ''file_name'' = Inr (PStr ''a.txt'')
        \<and> attachment_item ?ud ''content_url'' = Inr (PStr ''https://files/7'')
        \<and> attachment_item ?ud ''size'' = Inr (PInt 3)
        \<and> subscript ?ud ''token'' = Inr (PStr ''tok'')"
    by (simp add: local_file_def isinstance_def stub_upload_def attachment_item_def bind_def)
  have s: "saved (set_saved True local_file)"
    by (simp add: set_saved_def)
  have n: "\<not> saved (set_content PNone local_file)
           \<and> \<not> isinstance (content (set_content PNone local_file)) TBytes"
    by (simp add: set_content_def local_file_def isinstance_def)
  show ?thesis
    using h s n
      attachment_save_idempotent[where a = local_file and upload = stub_upload
        and response = "PDict [(''upload'', ?ud)]" and upload_data = ?ud and i = "PInt 7"
        and f = "PStr ''a.txt''" and u = "PStr ''https://files/7''" and s = "PInt 3"
        and t = "PStr ''tok''"]
      attachment_save_idempotent[where a = "set_saved True local_file" and upload = stub_upload]
      attachment_save_idempotent[where a = "set_content PNone local_file"
        and upload = stub_upload]
    by (simp add: local_file_def)
qed

section \<open>DateTime round trip\<close>

lemma digit_char_val: "d < 10 \<Longrightarrow> digit_val (digit_char d) = d"
  by (simp add: digit_val_def digit_char_def)

lemma digit_char_is_digit: "d < 10 \<Longrightarrow> is_digit (digit_char d)"
  by (simp add: is_digit_def digit_char_def)

lemma digits_pad2: "list_all is_digit (pad2 n)"
  by (simp add: pad2_def digit_char_is_digit)

lemma foldl_pad2:
  "n < 100 \<Longrightarrow> foldl (\<lambda>acc c. 10 * acc + digit_val c) a (pad2 n) = 100 * a + n"
  by (simp add: pad2_def digit_char_val)

lemma parse_pad2: "n < 100 \<Longrightarrow> parse_nat (pad2 n) = Some n"
  using foldl_pad2[of n 0] by (simp add: parse_nat_def digits_pad2) (simp add: pad2_def)

lemma parse_pad4: "n < 10000 \<Longrightarrow> parse_nat (pad4 n) = Some n"
proof -
  assume n: "n < 10000"
  then have h: "n div 100 < 100" and l: "n mod 100 < 100" by simp_all
  have "pad4 n \<noteq> []" by (simp add: pad4_def pad2_def)
  then show ?thesis
    by (simp add: parse_nat_def pad4_def digits_pad2 foldl_pad2[OF h] foldl_pad2[OF l])
qed

lemma parse_pad6: "n < 1000000 \<Longrightarrow> parse_nat (pad6 n) = Some n"
proof -
  assume n: "n < 1000000"
  then have h: "n div 10000 < 100" and m: "n mod 10000 div 100 < 100"
    and l: "n mod 10000 mod 100 < 100" by simp_all
  have e: "pad6 n \<noteq> []" by (simp add: pad6_def pad2_def)
  have "10000 * (n div 10000) + (100 * (n mod 10000 div 100) + n mod 10000 mod 100) = n"
    by presburger
  with e show ?thesis
    by (simp add: parse_nat_def pad6_def pad4_def digits_pad2 foldl_pad2[OF h] foldl_pad2[OF m]
          foldl_pad2[OF l])
qed

lemma date_parts:
  "length (date_wire i) = 10 \<and> date_wire i ! 4 = CHR ''-'' \<and> date_wire i ! 7 = CHR ''-''
   \<and> take 4 (date_wire i) = pad4 (year i) \<and> take 2 (drop 5 (date_wire i)) = pad2 (month i)
   \<and> drop 8 (date_wire i) = pad2 (day i)"
  by (simp add: date_wire_def pad4_def pad2_def)

lemma time_parts:
  "8 \<le> length (time_wire i) \<and> time_wire i ! 2 = CHR '':'' \<and> time_wire i ! 5 = CHR '':''
   \<and> take 2 (time_wire i) = pad2 (hour i) \<and> take 2 (drop 3 (time_wire i)) = pad2 (minute i)
   \<and> take 2 (drop 6 (time_wire i)) = pad2 (second i)
   \<and> drop 8 (time_wire i)
       = (if microsecond i \<noteq> 0 then ''.'' @ pad6 (microsecond i) else [])
         @ offset_wire (utcoffset i)"
  by (simp add: time_wire_def pad2_def)

lemma offset_head: "offset_wire off \<noteq> [] \<and> offset_wire off ! 0 \<noteq> CHR ''.''"
  by (simp add: offset_wire_def)

lemma pad6_len: "length (pad6 n) = 6"
  by (simp add: pad6_def pad4_def pad2_def)

lemma parse_offset_wire:
  assumes "- 1440 < off" and "off < 1440"
  shows "parse_offset (offset_wire off) = Some off"
proof -
  let ?a = "nat \<bar>off\<bar>"
  from assms have h: "?a div 60 < 100" and m: "?a mod 60 < 100" by simp_all
  have s: "length (offset_wire off) = 6 \<and> offset_wire off ! 3 = CHR '':''
           \<and> offset_wire off ! 0 = (if off < 0 then CHR ''-'' else CHR ''+'')
           \<and> take 2 (drop 1 (offset_wire off)) = pad2 (?a div 60)
           \<and> drop 4 (offset_wire off) = pad2 (?a mod 60)"
    by (simp add: offset_wire_def pad2_def)
  have "int (?a div 60) * 60 + int (?a mod 60) = \<bar>off\<bar>"
    by (simp add: zdiv_int zmod_int)
  with s show ?thesis
    by (simp add: parse_offset_def parse_pad2[OF h] parse_pad2[OF m])
qed

lemma days_in_month_le: "days_in_month y m \<le> 31"
  by (simp add: days_in_month_def)

lemma parse_wire:
  assumes "valid_instant i"
  shows "parse_instant (date_wire i) (time_wire i) = Some i"
proof -
  from assms have y: "year i < 10000" and mo: "month i < 100" and h: "hour i < 100"
    and mi: "minute i < 100" and s: "second i < 100" and us: "microsecond i < 1000000"
    and o: "- 1440 < utcoffset i" "utcoffset i < 1440"
    by (simp_all add: valid_instant_def)
  from assms days_in_month_le[of "year i" "month i"] have d: "day i < 100"
    by (simp add: valid_instant_def)
  show ?thesis
  proof (cases "microsecond i = 0")
    case True
    then have e: "\<lparr>year = year i, month = month i, day = day i, hour = hour i,
                   minute = minute i, second = second i, microsecond = 0,
                   utcoffset = utcoffset i\<rparr> = i"
      by (cases i) simp
    from True assms show ?thesis
      by (simp add: e parse_instant_def date_parts time_parts offset_head Let_def
            parse_pad4[OF y] parse_pad2[OF mo] parse_pad2[OF d] parse_pad2[OF h]
            parse_pad2[OF mi] parse_pad2[OF s] parse_offset_wire[OF o])
  next
    case False
    have e: "\<lparr>year = year i, month = month i, day = day i, hour = hour i,
              minute = minute i, second = second i, microsecond = microsecond i,
              utcoffset = utcoffset i\<rparr> = i"
      by (cases i) simp
    from False assms show ?thesis
      by (simp add: e parse_instant_def date_parts time_parts pad6_len Let_def
            parse_pad4[OF y] parse_pad2[OF mo] parse_pad2[OF d] parse_pad2[OF h]
            parse_pad2[OF mi] parse_pad2[OF s] parse_pad6[OF us] parse_offset_wire[OF o])
  qed
qed

text \<open>
  C3. Writing a timezone-aware instant to a DateTime field stores the date under the
  key \<open>{name}\<close> and the time of day with its offset under \<open>{name}_time\<close>; reading
  the two keys back gives the instant that was written, with date, time of day
  (microseconds included) and offset preserved. For example
  \<open>2023-07-15T10:30:45+00:00\<close> is written as \<open>2023-07-15\<close> and
  \<open>10:30:45+00:00\<close> and read back unchanged.
\<close>

theorem datetime_roundtrip:
  assumes "valid_instant i"
  shows "DateTimeField_set n inst i
           = inst(n \<mapsto> PStr (date_wire i), n @ ''_time'' \<mapsto> PStr (time_wire i))
         \<and> DateTimeField_get n (DateTimeField_set n inst i) = Some i"
  using parse_wire[OF assms]
  by (simp add: DateTimeField_set_def DateTimeField_get_def)

lemma created_at_wire:
  "date_wire created_at = ''2023-07-15'' \<and> time_wire created_at = ''10:30:45+00:00''"
  by code_simp

theorem datetime_roundtrip_witness:
  "DateTimeField_set ''created_at'' Map.empty created_at
     = [''created_at'' \<mapsto> PStr ''2023-07-15'', ''created_at_time'' \<mapsto> PStr ''10:30:45+00:00'']
   \<and> DateTimeField_get ''created_at''
         [''created_at'' \<mapsto> PStr ''2023-07-15'', ''created_at_time'' \<mapsto> PStr ''10:30:45+00:00'']
       = Some created_at"
proof -
  have v: "valid_instant created_at"
    by (simp add: valid_instant_def created_at_def days_in_month_def)
  note th = datetime_roundtrip[OF v, of "''created_at''" Map.empty]
  from th have "DateTimeField_set ''created_at'' Map.empty created_at
      = [''created_at'' \<mapsto> PStr (date_wire created_at),
         ''created_at'' @ ''_time'' \<mapsto> PStr (time_wire created_at)]"
    by (rule conjunct1)
  then have a: "DateTimeField_set ''created_at'' Map.empty created_at
      = [''created_at'' \<mapsto> PStr ''2023-07-15'', ''created_at_time'' \<mapsto> PStr ''10:30:45+00:00'']"
    by (simp add: created_at_wire)
  from th have "DateTimeField_get ''created_at''
      (DateTimeField_set ''created_at'' Map.empty created_at) = Some created_at"
    by (rule conjunct2)
  with a show ?thesis by simp
qed

end
